theory Spec2Isabelle
  imports Main
begin

unbundle bit_operations_syntax

section \<open>The targetcli root node (\<open>targetcli/ui_root.py\<close>)\<close>

text \<open>
  The root node of the targetcli shell saves, restores and clears the configuration of
  the storage target and lists the open sessions. The commands of \<open>UIRoot\<close> are
  embedded as functions on an explicit world: the attributes of the node, the file
  system, the state behind \<open>RTSRoot()\<close> and the sequence of effects that the
  command has caused so far. A command returns the exception it raised, if any,
  together with the world it leaves behind.
\<close>

subsection \<open>Exceptions\<close>

text \<open>
  The exception classes that the control flow of \<open>ui_root.py\<close> tells apart:
  \<open>ExecutionError\<close> is raised by the node itself, \<open>IOError\<close> and \<open>ValueError\<close>
  are caught in \<open>saveconfig\<close> and \<open>restoreconfig\<close>. \<open>AuthorizationError\<close> is the
  failure of \<open>assert_root\<close>. \<open>OSError\<close> and \<open>ShutilError\<close> (the class
  \<open>shutil.Error\<close>) are what \<open>shutil.move\<close> raises besides \<open>IOError\<close>; in
  Python 2, the language of the file, neither is an \<open>IOError\<close>.
  \<open>OtherException\<close> stands for any other class that no handler of the file matches.
\<close>

datatype py_exn =
    ExecutionError string
  | AuthorizationError
  | IOError
  | OSError
  | ShutilError
  | ValueError
  | OtherException string

subsection \<open>Sessions as reported by the backend\<close>

record StorageObject =
  udev_path :: string

record LUN =
  storage_object :: StorageObject

record MappedLUN =
  mapped_lun :: int
  tpg_lun :: LUN
  write_protect :: bool

record NodeACL =
  node_wwn :: string
  authenticate_target :: bool
  mapped_luns :: "MappedLUN list"

record Connection =
  address :: string
  transport :: string
  cid :: int
  cstate :: string

text \<open>
  The attributes \<open>alias\<close>, \<open>id\<close>, \<open>type\<close> and \<open>state\<close> of a session carry the suffix
  \<open>_session\<close>.
\<close>

record Session =
  alias_session :: string
  id_session :: int
  type_session :: string
  state_session :: string
  parent_nodeacl :: NodeACL
  connections :: "Connection list"

subsection \<open>The file system\<close>

type_synonym path = string

record regular_file =
  fmode :: nat
  fdata :: string

text \<open>
  Regular files by path and the paths of the directories; paths are absolute and
  normalised, and an entry of \<open>files\<close> takes precedence over one of \<open>dirs\<close>.
  \<open>locked\<close> lists the paths at which the operating system refuses to create or
  replace an entry (no permission, a read-only file system), \<open>create_mode\<close> is the
  mode that a newly created file receives (\<open>0666\<close> masked by the process umask).
  There are no links.
\<close>

record filesystem =
  files :: "path \<rightharpoonup> regular_file"
  dirs :: "path list"
  locked :: "path list"
  create_mode :: nat

definition S_IRUSR :: nat where
  "S_IRUSR = 256"

definition S_IWUSR :: nat where
  "S_IWUSR = 128"

definition os_path_isfile :: "filesystem \<Rightarrow> path \<Rightarrow> bool" where
  "os_path_isfile fsys p = (files fsys p \<noteq> None)"

definition os_path_isdir :: "filesystem \<Rightarrow> path \<Rightarrow> bool" where
  "os_path_isdir fsys p = (files fsys p = None \<and> p \<in> set (dirs fsys))"

definition os_path_exists :: "filesystem \<Rightarrow> path \<Rightarrow> bool" where
  "os_path_exists fsys p = (os_path_isfile fsys p \<or> os_path_isdir fsys p)"

text \<open>\<open>os.path.basename\<close>, \<open>path.rstrip('/')\<close> and \<open>os.path.join\<close> of two parts.\<close>

definition os_path_basename :: "path \<Rightarrow> string" where
  "os_path_basename p = rev (takeWhile (\<lambda>c. c \<noteq> CHR ''/'') (rev p))"

definition rstrip_sep :: "path \<Rightarrow> path" where
  "rstrip_sep p = rev (dropWhile (\<lambda>c. c = CHR ''/'') (rev p))"

definition os_path_join :: "path \<Rightarrow> path \<Rightarrow> path" where
  "os_path_join a b =
     (if take 1 b = ''/'' then b
      else if a = [] \<or> take 1 (rev a) = ''/'' then a @ b
      else a @ ''/'' @ b)"

text \<open>
  A path that is \<open>d\<close> or lies below the directory \<open>d\<close>, and the path that takes
  its place when the tree at \<open>src\<close> goes to \<open>dst\<close>.
\<close>

definition within :: "path \<Rightarrow> path \<Rightarrow> bool" where
  "within d q = (q = d \<or> take (Suc (length d)) q = d @ ''/'')"

definition rebase :: "path \<Rightarrow> path \<Rightarrow> path \<Rightarrow> path" where
  "rebase src dst q = dst @ drop (length src) q"

definition copy_tree :: "filesystem \<Rightarrow> path \<Rightarrow> path \<Rightarrow> filesystem" where
  "copy_tree fsys src dst =
     fsys\<lparr>files := (\<lambda>q. if within dst q then files fsys (rebase dst src q) else files fsys q),
          dirs := dirs fsys @ map (rebase src dst) (filter (within src) (dirs fsys))\<rparr>"

definition rmtree :: "filesystem \<Rightarrow> path \<Rightarrow> filesystem" where
  "rmtree fsys src =
     fsys\<lparr>files := (\<lambda>q. if within src q then None else files fsys q),
          dirs := filter (\<lambda>d. \<not> within src d) (dirs fsys)\<rparr>"

text \<open>
  \<open>os.rename(src, dst)\<close> raises \<open>OSError\<close> when there is nothing at \<open>src\<close>,
  when \<open>dst\<close> cannot be written, for a regular file onto a directory, and for a
  directory onto a regular file or into itself. A regular file replaces a regular
  file at \<open>dst\<close>; a directory goes to \<open>dst\<close> with everything below it. A
  directory onto an existing directory is taken to fail as onto a directory that is
  not empty; \<open>shutil_move\<close> never asks for it.
\<close>

definition os_rename :: "filesystem \<Rightarrow> path \<Rightarrow> path \<Rightarrow> py_exn + filesystem" where
  "os_rename fsys src dst =
     (if \<not> os_path_exists fsys src \<or> dst \<in> set (locked fsys) then Inl OSError
      else
        case files fsys src of
          Some f \<Rightarrow>
            if os_path_isdir fsys dst then Inl OSError
            else Inr (fsys\<lparr>files := ((files fsys)(src := None))(dst \<mapsto> f)\<rparr>)
        | None \<Rightarrow>
            if os_path_exists fsys dst \<or> within src dst then Inl OSError
            else Inr (rmtree (copy_tree fsys src dst) src))"

text \<open>
  \<open>shutil.copy2(src, dst)\<close> of a regular file, with its mode: \<open>IOError\<close> when
  \<open>src\<close> cannot be opened for reading or the target for writing.
\<close>

definition copy2 :: "filesystem \<Rightarrow> path \<Rightarrow> path \<Rightarrow> py_exn + filesystem" where
  "copy2 fsys src dst0 =
     (let dst = (if os_path_isdir fsys dst0 then os_path_join dst0 (os_path_basename src)
                 else dst0)
      in case files fsys src of
           None \<Rightarrow> Inl IOError
         | Some f \<Rightarrow>
             if dst \<in> set (locked fsys) \<or> os_path_isdir fsys dst then Inl IOError
             else Inr (fsys\<lparr>files := (files fsys)(dst \<mapsto> f)\<rparr>))"

definition os_unlink :: "filesystem \<Rightarrow> path \<Rightarrow> filesystem" where
  "os_unlink fsys p = fsys\<lparr>files := (files fsys)(p := None)\<rparr>"

text \<open>
  \<open>shutil.copytree(src, dst)\<close>: \<open>os.makedirs(dst)\<close> raises \<open>OSError\<close> when
  \<open>dst\<close> exists or cannot be created.
\<close>

definition copytree :: "filesystem \<Rightarrow> path \<Rightarrow> path \<Rightarrow> py_exn + filesystem" where
  "copytree fsys src dst =
     (if os_path_exists fsys dst \<or> dst \<in> set (locked fsys) then Inl OSError
      else Inr (copy_tree fsys src dst))"

definition destinsrc :: "path \<Rightarrow> path \<Rightarrow> bool" where
  "destinsrc src dst =
     (let s = (if take 1 (rev src) = ''/'' then src else src @ ''/'');
          d = (if take 1 (rev dst) = ''/'' then dst else dst @ ''/'')
      in take (length s) d = s)"

text \<open>
  \<open>shutil.move(src, dst)\<close> of Python 2.7. A destination that is a directory
  receives the source under its own name, and \<open>shutil.Error\<close> is raised when that
  name is taken. Otherwise \<open>os.rename\<close> is tried, and where it raises \<open>OSError\<close>
  the source is copied and then removed: a directory with \<open>copytree\<close> and
  \<open>rmtree\<close> (\<open>shutil.Error\<close> for a destination inside the source), anything
  else with \<open>copy2\<close> and \<open>os.unlink\<close>. Without links, the source and an existing
  destination directory are never the same file.
\<close>

definition shutil_move :: "filesystem \<Rightarrow> path \<Rightarrow> path \<Rightarrow> py_exn + filesystem" where
  "shutil_move fsys src dst =
     (let real_dst =
            (if os_path_isdir fsys dst
             then os_path_join dst (os_path_basename (rstrip_sep src))
             else dst)
      in if os_path_isdir fsys dst \<and> os_path_exists fsys real_dst then Inl ShutilError
         else
           case os_rename fsys src real_dst of
             Inr fs1 \<Rightarrow> Inr fs1
           | Inl e \<Rightarrow>
               if os_path_isdir fsys src then
                 (if destinsrc src dst then Inl ShutilError
                  else
                    case copytree fsys src real_dst of
                      Inl e1 \<Rightarrow> Inl e1
                    | Inr fs1 \<Rightarrow> Inr (rmtree fs1 src))
               else
                 (case copy2 fsys src real_dst of
                    Inl e1 \<Rightarrow> Inl e1
                  | Inr fs1 \<Rightarrow> Inr (os_unlink fs1 src)))"

text \<open>
  \<open>open(p, "w+")\<close>: an existing file is truncated and keeps its mode, a missing
  one is created empty; \<open>IOError\<close> when \<open>p\<close> cannot be written or is a directory.
\<close>

definition open_w :: "filesystem \<Rightarrow> path \<Rightarrow> py_exn + filesystem" where
  "open_w fsys p =
     (if p \<in> set (locked fsys) \<or> os_path_isdir fsys p then Inl IOError
      else Inr (fsys\<lparr>files := (files fsys)(p \<mapsto>
             (case files fsys p of
                None \<Rightarrow> \<lparr>fmode = create_mode fsys, fdata = []\<rparr>
              | Some f \<Rightarrow> f\<lparr>fdata := []\<rparr>))\<rparr>))"

text \<open>\<open>os.fchmod\<close> and \<open>f.write\<close> on the file that is open at \<open>p\<close>.\<close>

definition os_fchmod :: "filesystem \<Rightarrow> path \<Rightarrow> nat \<Rightarrow> filesystem" where
  "os_fchmod fsys p m =
     fsys\<lparr>files := (files fsys)(p := map_option (\<lambda>f. f\<lparr>fmode := m\<rparr>) (files fsys p))\<rparr>"

definition f_write :: "filesystem \<Rightarrow> path \<Rightarrow> string \<Rightarrow> filesystem" where
  "f_write fsys p s =
     fsys\<lparr>files := (files fsys)(p := map_option (\<lambda>f. f\<lparr>fdata := fdata f @ s\<rparr>) (files fsys p))\<rparr>"

text \<open>\<open>open(p, "r")\<close> followed by \<open>f.read()\<close>.\<close>

definition open_r_read :: "filesystem \<Rightarrow> path \<Rightarrow> py_exn + string" where
  "open_r_read fsys p =
     (case files fsys p of None \<Rightarrow> Inl IOError | Some f \<Rightarrow> Inr (fdata f))"

subsection \<open>Effects and the world\<close>

text \<open>
  The effects of a command in the order in which they happen: lines of the shell
  log, lines shown on the console (the text and the margin handed to
  \<open>console.indent\<close>), changes of the file system, the mutating calls of the backend
  with their arguments, and the calls of \<open>refresh\<close>.
\<close>

datatype 'j event =
    Log_info string
  | Log_error string
  | Display string nat
  | Fs_move path path
  | Fs_open path
  | Fs_fchmod path nat
  | Fs_write path string
  | Rts_restore 'j bool
  | Rts_clear_existing bool
  | Refresh

datatype ui_node = UIBackstores | UIFabricModule string

record ('b, 'j) world =
  as_root :: bool
  children :: "ui_node list"
  fs :: filesystem
  backend :: 'b
  trace :: "'j event list"

text \<open>
  What \<open>ui_root.py\<close> imports from other packages is a parameter of the model: the
  JSON codec, \<open>os.path.expanduser\<close>, the boolean parameter type of configshell and the
  operations of \<open>RTSRoot\<close> on a backend state \<open>'b\<close> with snapshots \<open>'j\<close>.
  \<open>json_loads\<close> answers \<open>None\<close> where \<open>json.loads\<close> raises \<open>ValueError\<close>,
  \<open>ui_type_bool\<close> answers the message of its \<open>ValueError\<close> for a text it rejects;
  \<open>rts_restore\<close> and \<open>rts_clear_existing\<close> return the backend state they leave
  behind together with their result or the exception they raised.
\<close>

record ('b, 'j) env =
  os_path_expanduser :: "path \<Rightarrow> path"
  json_dumps :: "'j \<Rightarrow> bool \<Rightarrow> nat \<Rightarrow> string"
  json_loads :: "string \<Rightarrow> 'j option"
  ui_type_bool :: "string \<Rightarrow> string + bool"
  rts_dump :: "'b \<Rightarrow> 'j"
  rts_restore :: "'j \<Rightarrow> bool \<Rightarrow> 'b \<Rightarrow> 'b \<times> (py_exn + int)"
  rts_clear_existing :: "bool \<Rightarrow> 'b \<Rightarrow> 'b \<times> py_exn option"
  rts_sessions :: "'b \<Rightarrow> Session list"
  rts_fabric_modules :: "'b \<Rightarrow> string list"

type_synonym ('b, 'j) command = "('b, 'j) world \<Rightarrow> py_exn option \<times> ('b, 'j) world"

definition emit :: "'j event \<Rightarrow> ('b, 'j) world \<Rightarrow> ('b, 'j) world" where
  "emit e w = w\<lparr>trace := trace w @ [e]\<rparr>"

definition log_info :: "string \<Rightarrow> ('b, 'j) world \<Rightarrow> ('b, 'j) world" where
  "log_info msg = emit (Log_info msg)"

definition log_error :: "string \<Rightarrow> ('b, 'j) world \<Rightarrow> ('b, 'j) world" where
  "log_error msg = emit (Log_error msg)"

subsection \<open>Strings and numbers\<close>

text \<open>Decimal formatting of an integer, as \<open>%i\<close>, \<open>%s\<close> and \<open>str\<close> give it.\<close>

definition digit_char :: "nat \<Rightarrow> char" where
  "digit_char d = ''0123456789'' ! d"

fun str_nat :: "nat \<Rightarrow> string" where
  "str_nat n = (if n < 10 then [digit_char n] else str_nat (n div 10) @ [digit_char (n mod 10)])"

definition str_int :: "int \<Rightarrow> string" where
  "str_int i = (if i < 0 then CHR ''-'' # str_nat (nat (- i)) else str_nat (nat i))"

text \<open>
  \<open>int(s)\<close> on a string: surrounding white space, an optional sign and at least one
  decimal digit; \<open>None\<close> where Python raises \<open>ValueError\<close>.
\<close>

definition is_space :: "char \<Rightarrow> bool" where
  "is_space c = (c \<in> set [CHR '' '', CHR 0x09, CHR 0x0A, CHR 0x0B, CHR 0x0C, CHR 0x0D])"

definition is_digit :: "char \<Rightarrow> bool" where
  "is_digit c = (c \<in> set ''0123456789'')"

definition strip :: "string \<Rightarrow> string" where
  "strip s = rev (dropWhile is_space (rev (dropWhile is_space s)))"

definition digit_val :: "char \<Rightarrow> nat" where
  "digit_val c = of_char c - 48"

definition parse_digits :: "string \<Rightarrow> nat option" where
  "parse_digits s =
     (if s = [] \<or> \<not> list_all is_digit s then None
      else Some (foldl (\<lambda>a c. 10 * a + digit_val c) 0 s))"

definition py_int :: "string \<Rightarrow> int option" where
  "py_int s =
     (case strip s of
        [] \<Rightarrow> None
      | c # cs \<Rightarrow>
          if c = CHR ''-'' then map_option (\<lambda>n. - int n) (parse_digits cs)
          else if c = CHR ''+'' then map_option int (parse_digits cs)
          else map_option int (parse_digits (c # cs)))"

text \<open>\<open>sep.join(xs)\<close> and \<open>s.split('/')[-1]\<close>.\<close>

fun join :: "string \<Rightarrow> string list \<Rightarrow> string" where
  "join sep [] = []"
| "join sep [x] = x"
| "join sep (x # y # ys) = x @ sep @ join sep (y # ys)"

definition last_component :: "path \<Rightarrow> string" where
  "last_component p = rev (takeWhile (\<lambda>c. c \<noteq> CHR ''/'') (rev p))"

definition newline :: string where
  "newline = [CHR 0x0A]"

definition tab :: string where
  "tab = [CHR 0x09]"

subsection \<open>The root node\<close>

definition default_save_file :: path where
  "default_save_file = ''/etc/target/saveconfig.json''"

text \<open>
  Modelled from the spec: \<open>assert_root\<close> is defined by the base class in
  \<open>ui_node.py\<close>. A privileged command invoked without elevated privilege aborts
  with an authorization error before any side effect.
\<close>

definition assert_root :: "('b, 'j) world \<Rightarrow> py_exn option" where
  "assert_root w = (if as_root w then None else Some AuthorizationError)"

text \<open>
  \<open>refresh\<close> empties the set of children and constructs a \<open>UIBackstores\<close> node and
  one \<open>UIFabricModule\<close> node for each fabric module of the backend; every
  constructed node enters the children of the root.
\<close>

definition refresh :: "('b, 'j) env \<Rightarrow> ('b, 'j) world \<Rightarrow> ('b, 'j) world" where
  "refresh E w =
     (let w1 = emit Refresh (w\<lparr>children := []\<rparr>);
          w2 = w1\<lparr>children := children w1 @ [UIBackstores]\<rparr>
      in fold (\<lambda>fabric_module v. v\<lparr>children := children v @ [UIFabricModule fabric_module]\<rparr>)
           (rts_fabric_modules E (backend w2)) w2)"

subsection \<open>saveconfig\<close>

definition do_fchmod :: "path \<Rightarrow> nat \<Rightarrow> ('b, 'j) world \<Rightarrow> ('b, 'j) world" where
  "do_fchmod p m w = emit (Fs_fchmod p m) (w\<lparr>fs := os_fchmod (fs w) p m\<rparr>)"

definition do_write :: "path \<Rightarrow> string \<Rightarrow> ('b, 'j) world \<Rightarrow> ('b, 'j) world" where
  "do_write p s w = emit (Fs_write p s) (w\<lparr>fs := f_write (fs w) p s\<rparr>)"

text \<open>
  The \<open>try\<close> block around \<open>shutil.move\<close>: the move and its log line, with
  \<open>IOError\<close> passed over and any other exception handed on.
\<close>

definition backup_existing :: "path \<Rightarrow> path \<Rightarrow> ('b, 'j) world \<Rightarrow> py_exn + ('b, 'j) world" where
  "backup_existing savefile backupfile w =
     (case shutil_move (fs w) savefile backupfile of
        Inr fs1 \<Rightarrow>
          Inr (log_info (''Existing file '' @ savefile @ '' backed up to '' @ last_component backupfile)
                 (emit (Fs_move savefile backupfile) (w\<lparr>fs := fs1\<rparr>)))
      | Inl IOError \<Rightarrow> Inr w
      | Inl e \<Rightarrow> Inl e)"

definition ui_command_saveconfig :: "('b, 'j) env \<Rightarrow> path \<Rightarrow> ('b, 'j) command" where
  "ui_command_saveconfig E savefile0 w =
     (case assert_root w of
        Some e \<Rightarrow> (Some e, w)
      | None \<Rightarrow>
          let savefile = os_path_expanduser E savefile0;
              backupfile = savefile @ ''.backup''
          in case backup_existing savefile backupfile w of
               Inl e \<Rightarrow> (Some e, w)
             | Inr w1 \<Rightarrow>
                 (case open_w (fs w1) savefile of
                    Inl e \<Rightarrow> (Some e, w1)
                  | Inr fs2 \<Rightarrow>
                      let w2 = emit (Fs_open savefile) (w1\<lparr>fs := fs2\<rparr>);
                          w3 = do_fchmod savefile (S_IRUSR OR S_IWUSR) w2;
                          w4 = do_write savefile (json_dumps E (rts_dump E (backend w3)) True 2) w3;
                          w5 = do_write savefile newline w4
                      in (None, log_info (''Configuration saved to '' @ savefile) w5)))"

subsection \<open>restoreconfig\<close>

text \<open>
  The call of \<open>restore\<close> stands inside the \<open>try\<close> block, after the evaluation of
  its argument: a \<open>ValueError\<close> from either \<open>json.loads\<close> or \<open>restore\<close> ends the
  command with the parse error line.
\<close>

definition ui_command_restoreconfig ::
    "('b, 'j) env \<Rightarrow> path \<Rightarrow> bool \<Rightarrow> ('b, 'j) command" where
  "ui_command_restoreconfig E savefile0 clear_existing w =
     (case assert_root w of
        Some e \<Rightarrow> (Some e, w)
      | None \<Rightarrow>
          let savefile = os_path_expanduser E savefile0 in
          if \<not> os_path_isfile (fs w) savefile
          then (None, log_info (''Restore file '' @ savefile @ '' not found'') w)
          else
            case open_r_read (fs w) savefile of
              Inl e \<Rightarrow> (Some e, w)
            | Inr contents \<Rightarrow>
                (case json_loads E contents of
                   None \<Rightarrow> (None, log_error (''Error parsing savefile: '' @ savefile) w)
                 | Some config \<Rightarrow>
                     let (b1, r) = rts_restore E config clear_existing (backend w);
                         w1 = emit (Rts_restore config clear_existing) (w\<lparr>backend := b1\<rparr>)
                     in case r of
                          Inl ValueError \<Rightarrow>
                            (None, log_error (''Error parsing savefile: '' @ savefile) w1)
                        | Inl e \<Rightarrow> (Some e, w1)
                        | Inr errors \<Rightarrow>
                            let w2 =
                              (if errors \<noteq> 0
                               then log_error (''Configuration restored, '' @ str_int errors
                                                 @ '' recoverable errors'') w1
                               else log_info (''Configuration restored from '' @ savefile) w1)
                            in (None, refresh E w2)))"

subsection \<open>clearconfig\<close>

text \<open>
  \<open>ui_eval_param(value, 'bool', default)\<close>: the default for an absent parameter,
  otherwise the value that the boolean parameter type reads, or an
  \<open>ExecutionError\<close> with its message where it rejects the text.
\<close>

definition ui_eval_param :: "('b, 'j) env \<Rightarrow> string option \<Rightarrow> bool \<Rightarrow> py_exn + bool" where
  "ui_eval_param E ui_value dflt =
     (case ui_value of
        None \<Rightarrow> Inr dflt
      | Some v \<Rightarrow>
          (case ui_type_bool E v of
             Inl msg \<Rightarrow> Inl (ExecutionError msg)
           | Inr b \<Rightarrow> Inr b))"

definition ui_command_clearconfig :: "('b, 'j) env \<Rightarrow> string option \<Rightarrow> ('b, 'j) command" where
  "ui_command_clearconfig E confirm0 w =
     (case assert_root w of
        Some e \<Rightarrow> (Some e, w)
      | None \<Rightarrow>
          (case ui_eval_param E confirm0 False of
             Inl e \<Rightarrow> (Some e, w)
           | Inr confirm \<Rightarrow>
               let (b1, r) = rts_clear_existing E confirm (backend w);
                   w1 = emit (Rts_clear_existing confirm) (w\<lparr>backend := b1\<rparr>)
               in case r of
                    Some e \<Rightarrow> (Some e, w1)
                  | None \<Rightarrow> (None, refresh E (log_info ''All configuration cleared'' w1))))"

subsection \<open>sessions\<close>

definition indent_step :: nat where
  "indent_step = 4"

definition base_steps :: nat where
  "base_steps = 0"

definition action_list :: "string list" where
  "action_list = [''list'', ''details'']"

definition indent_print :: "string \<Rightarrow> nat \<Rightarrow> ('b, 'j) world \<Rightarrow> ('b, 'j) world" where
  "indent_print text steps w = emit (Display text (indent_step * steps)) w"

definition summary_line :: "Session \<Rightarrow> string" where
  "summary_line session =
     ''alias: '' @ alias_session session @ tab @ ''sid: '' @ str_int (id_session session)
       @ ''  type: '' @ type_session session @ ''  state: '' @ state_session session"

definition mapped_lun_line :: "MappedLUN \<Rightarrow> string" where
  "mapped_lun_line mlun =
     (let number = str_int (mapped_lun mlun);
          dev = udev_path (storage_object (tpg_lun mlun));
          mode = (if write_protect mlun then '' (r)'' else '' (rw)'')
      in number @ '' '' @ dev @ mode)"

definition connection_line :: "Connection \<Rightarrow> string" where
  "connection_line connection =
     ''address: '' @ address connection @ '' ('' @ transport connection @ '')  cid: ''
       @ str_int (cid connection) @ ''  state: '' @ cstate connection"

text \<open>The body of the loop for a session that passes the filter.\<close>

definition show_session :: "string \<Rightarrow> Session \<Rightarrow> ('b, 'j) world \<Rightarrow> ('b, 'j) world" where
  "show_session action session w =
     (let acl = parent_nodeacl session;
          w1 = indent_print (summary_line session) base_steps w
      in if action = ''details'' then
           let w2 =
                 (if as_root w1 then
                    let auth = (if authenticate_target acl then ''authenticated''
                                else ''NOT AUTHENTICATED'')
                    in indent_print (node_wwn acl @ '' ('' @ auth @ '')'') (base_steps + 1) w1
                  else indent_print (node_wwn acl) (base_steps + 1) w1);
               w3 = fold (\<lambda>mlun. indent_print (mapped_lun_line mlun) (base_steps + 1))
                      (mapped_luns acl) w2
           in fold (\<lambda>connection. indent_print (connection_line connection) (base_steps + 1))
                (connections session) w3
         else w1)"

text \<open>\<open>sid is None or int(sid) == session.id\<close>\<close>

definition sid_matches :: "string option \<Rightarrow> Session \<Rightarrow> bool" where
  "sid_matches sid session =
     (case sid of None \<Rightarrow> True | Some t \<Rightarrow> py_int t = Some (id_session session))"

fun sessions_loop ::
    "string \<Rightarrow> string option \<Rightarrow> Session list \<Rightarrow> bool \<times> ('b, 'j) world \<Rightarrow> bool \<times> ('b, 'j) world" where
  "sessions_loop action sid [] (found, w) = (found, w)"
| "sessions_loop action sid (session # rest) (found, w) =
     (if sid_matches sid session
      then sessions_loop action sid rest (True, show_session action session w)
      else sessions_loop action sid rest (found, w))"

definition ui_command_sessions ::
    "('b, 'j) env \<Rightarrow> string \<Rightarrow> string option \<Rightarrow> ('b, 'j) command" where
  "ui_command_sessions E action sid w =
     (if action \<notin> set action_list
      then (Some (ExecutionError (''action must be one of: '' @ join '', '' action_list)), w)
      else
        case (case sid of None \<Rightarrow> None | Some t \<Rightarrow>
                (case py_int t of
                   None \<Rightarrow> Some (ExecutionError (''sid must be a number, '' @ [CHR 0x27] @ t
                                                   @ [CHR 0x27] @ '' given''))
                 | Some _ \<Rightarrow> None)) of
          Some e \<Rightarrow> (Some e, w)
        | None \<Rightarrow>
            let (found, w1) = sessions_loop action sid (rts_sessions E (backend w)) (False, w)
            in if \<not> found then
                 (case sid of
                    None \<Rightarrow> (None, indent_print ''(no open sessions)'' base_steps w1)
                  | Some t \<Rightarrow>
                      (case py_int t of
                         None \<Rightarrow> (Some ValueError, w1)
                       | Some n \<Rightarrow>
                           (Some (ExecutionError (''no session found with sid '' @ str_int n)), w1)))
               else (None, w1))"

subsection \<open>Notions used in the statements\<close>

text \<open>
  The events that a command has added to the trace of the world it started from.
\<close>

definition new_events :: "('b, 'j) world \<Rightarrow> ('b, 'j) world \<Rightarrow> 'j event list" where
  "new_events w w' = drop (length (trace w)) (trace w')"

text \<open>
  The console lines of one session in the order of the loop body: the summary at
  the base margin and, for \<open>details\<close>, the line of the access-control entry (with
  the text \<open>acl_text\<close>), the mapped LUNs and the connections one step in.
\<close>

definition acl_marker :: "NodeACL \<Rightarrow> string" where
  "acl_marker acl =
     node_wwn acl @ '' ('' @ (if authenticate_target acl then ''authenticated''
                               else ''NOT AUTHENTICATED'') @ '')''"

definition detail_events :: "(NodeACL \<Rightarrow> string) \<Rightarrow> Session \<Rightarrow> 'j event list" where
  "detail_events acl_text session =
     Display (acl_text (parent_nodeacl session)) 4
       # map (\<lambda>mlun. Display (mapped_lun_line mlun) 4) (mapped_luns (parent_nodeacl session))
       @ map (\<lambda>connection. Display (connection_line connection) 4) (connections session)"

definition session_events :: "bool \<Rightarrow> string \<Rightarrow> Session \<Rightarrow> 'j event list" where
  "session_events root action session =
     Display (summary_line session) 0
       # (if action = ''details''
          then detail_events (if root then acl_marker else node_wwn) session
          else [])"

text \<open>A console line at the base margin, where only summaries are shown.\<close>

fun at_base_margin :: "'j event \<Rightarrow> bool" where
  "at_base_margin (Display text margin) = (margin = 0)"
| "at_base_margin _ = False"

text \<open>A write to a file.\<close>

fun is_write :: "'j event \<Rightarrow> bool" where
  "is_write (Fs_write p s) = True"
| "is_write _ = False"

text \<open>A call of the backend's \<open>restore\<close>.\<close>

fun is_restore :: "'j event \<Rightarrow> bool" where
  "is_restore (Rts_restore config clear_existing) = True"
| "is_restore _ = False"

text \<open>Two sessions that differ at most in the authentication flag of their entry.\<close>

definition same_but_flag :: "Session \<Rightarrow> Session \<Rightarrow> bool" where
  "same_but_flag s t =
     (t = s\<lparr>parent_nodeacl :=
              (parent_nodeacl s)\<lparr>authenticate_target := authenticate_target (parent_nodeacl t)\<rparr>\<rparr>)"

subsection \<open>A small instance\<close>

text \<open>
  An instance of the parameters for evaluating the commands: a snapshot is a JSON
  number, the count of configured objects, which is also the whole state of the
  backend; restoring a negative count is one recoverable error, and clearing without
  confirmation leaves the state as it is. The home directory is \<open>/root\<close>.
\<close>

definition demo_session :: "int \<Rightarrow> bool \<Rightarrow> Session" where
  "demo_session n flag =
     \<lparr>alias_session = ''host'', id_session = n, type_session = ''Normal'',
      state_session = ''LOGGED_IN'',
      parent_nodeacl =
        \<lparr>node_wwn = ''iqn.2003-01.org.example:client'', authenticate_target = flag,
         mapped_luns =
           [\<lparr>mapped_lun = 0, tpg_lun = \<lparr>storage_object = \<lparr>udev_path = ''/dev/sdb''\<rparr>\<rparr>,
             write_protect = False\<rparr>]\<rparr>,
      connections =
        [\<lparr>address = ''10.0.0.7'', transport = ''TCP'', cid = 0, cstate = ''LOGGED_IN''\<rparr>]\<rparr>"

definition demo_env :: "Session list \<Rightarrow> (int, int) env" where
  "demo_env ss =
     \<lparr>os_path_expanduser = (\<lambda>p. if take 2 p = ''~/'' then ''/root'' @ drop 1 p else p),
      json_dumps = (\<lambda>j sort_keys indent. str_int j),
      json_loads = py_int,
      ui_type_bool = (\<lambda>v. if v = ''true'' then Inr True
                            else if v = ''false'' then Inr False
                            else Inl ''Syntax error''),
      rts_dump = (\<lambda>b. b),
      rts_restore = (\<lambda>config clear_existing b.
                       if config < 0 then (if clear_existing then 0 else b, Inr 1)
                       else (if clear_existing then config else b + config, Inr 0)),
      rts_clear_existing = (\<lambda>confirm b. (if confirm then 0 else b, None)),
      rts_sessions = (\<lambda>b. ss),
      rts_fabric_modules = (\<lambda>b. [''iscsi'', ''loopback''])\<rparr>"

definition demo_fs :: "(path \<times> regular_file) list \<Rightarrow> filesystem" where
  "demo_fs fl = \<lparr>files = map_of fl, dirs = [], locked = [], create_mode = 420\<rparr>"

definition demo_saved :: "string \<Rightarrow> (path \<times> regular_file) list" where
  "demo_saved text = [(''/etc/target/saveconfig.json'', \<lparr>fmode = 384, fdata = text\<rparr>)]"

definition demo_world :: "bool \<Rightarrow> (path \<times> regular_file) list \<Rightarrow> int \<Rightarrow> (int, int) world" where
  "demo_world root fl b =
     \<lparr>as_root = root, children = [], fs = demo_fs fl, backend = b, trace = []\<rparr>"

subsection \<open>An instance with a strict backend\<close>

text \<open>
  The JSON documents of this instance are the empty object, the empty array and the
  integers. \<open>small_dumps\<close> gives the text that \<open>json.dumps\<close> gives for them with
  any indentation, \<open>small_loads\<close> reads that text back between JSON white space;
  every other text is rejected in this instance. In the data model a Snapshot is a
  map from string keys to values, so of these documents only the object is one.
\<close>

datatype small_json = Empty_object | Empty_array | Number int

fun is_snapshot :: "small_json \<Rightarrow> bool" where
  "is_snapshot Empty_object = True"
| "is_snapshot Empty_array = False"
| "is_snapshot (Number n) = False"

fun small_dumps :: "small_json \<Rightarrow> string" where
  "small_dumps Empty_object = ''{}''"
| "small_dumps Empty_array = ''[]''"
| "small_dumps (Number n) = str_int n"

definition json_ws :: "char \<Rightarrow> bool" where
  "json_ws c = (c \<in> set [CHR '' '', CHR 0x09, CHR 0x0A, CHR 0x0D])"

definition json_natural :: "string \<Rightarrow> nat option" where
  "json_natural s = (if s = ''0'' \<or> take 1 s \<noteq> ''0'' then parse_digits s else None)"

definition json_integer :: "string \<Rightarrow> int option" where
  "json_integer s =
     (if take 1 s = ''-'' then map_option (\<lambda>n. - int n) (json_natural (drop 1 s))
      else map_option int (json_natural s))"

definition small_loads :: "string \<Rightarrow> small_json option" where
  "small_loads text =
     (let t = rev (dropWhile json_ws (rev (dropWhile json_ws text)))
      in if t = ''{}'' then Some Empty_object
         else if t = ''[]'' then Some Empty_array
         else map_option Number (json_integer t))"

text \<open>
  The backend of the instance has nothing configured. Its \<open>restore\<close> reads the
  keys of a map and fails with \<open>AttributeError\<close> on any other document; its
  \<open>clear_existing\<close> refuses to run without confirmation.
\<close>

definition strict_env :: "(unit, small_json) env" where
  "strict_env =
     \<lparr>os_path_expanduser = (\<lambda>p. p),
      json_dumps = (\<lambda>j sort_keys indent. small_dumps j),
      json_loads = small_loads,
      ui_type_bool = (\<lambda>v. if v = ''true'' then Inr True
                            else if v = ''false'' then Inr False
                            else Inl ''Syntax error''),
      rts_dump = (\<lambda>b. Empty_object),
      rts_restore = (\<lambda>config clear_existing b.
                       if is_snapshot config then (b, Inr 0)
                       else (b, Inl (OtherException ''AttributeError''))),
      rts_clear_existing = (\<lambda>confirm b.
                       (b, if confirm then None else Some (OtherException ''RTSLibError''))),
      rts_sessions = (\<lambda>b. []),
      rts_fabric_modules = (\<lambda>b. [])\<rparr>"


definition strict_world :: "filesystem \<Rightarrow> (unit, small_json) world" where
  "strict_world fsys = \<lparr>as_root = True, children = [], fs = fsys, backend = (), trace = []\<rparr>"

section \<open>Properties\<close>

subsection \<open>Auxiliary facts\<close>

declare str_nat.simps [simp del]

lemmas move_simps =
  shutil_move_def os_rename_def copytree_def copy2_def os_unlink_def rmtree_def copy_tree_def
  os_path_exists_def os_path_isfile_def

lemma shutil_move_locked:
  "shutil_move fsys src dst = Inr fs1 \<Longrightarrow> locked fs1 = locked fsys"
  by (auto simp: move_simps Let_def split: if_splits sum.splits option.splits)




lemma shutil_move_taken:
  "os_path_isdir fsys dst \<Longrightarrow>
   os_path_exists fsys (os_path_join dst (os_path_basename (rstrip_sep src))) \<Longrightarrow>
   shutil_move fsys src dst = Inl ShutilError"
  by (simp add: shutil_move_def)




lemma backup_result:
  "backup_existing p bk w = Inr w1 \<Longrightarrow>
   w1 = w \<or>
   (\<exists>fs1. shutil_move (fs w) p bk = Inr fs1
      \<and> w1 = w\<lparr>fs := fs1,
                trace := trace w @ [Fs_move p bk,
                  Log_info (''Existing file '' @ p @ '' backed up to '' @ last_component bk)]\<rparr>)"
  by (auto simp: backup_existing_def log_info_def emit_def split: sum.splits py_exn.splits)

lemma regular_file_update:
  "(f :: regular_file)\<lparr>fmode := m, fdata := d\<rparr> = \<lparr>fmode = m, fdata = d\<rparr>"
  by (cases f) simp

lemma save_cases:
  "ui_command_saveconfig E p0 w =
     (if \<not> as_root w then (Some AuthorizationError, w)
      else
        case backup_existing (os_path_expanduser E p0) (os_path_expanduser E p0 @ ''.backup'') w of
          Inl e \<Rightarrow> (Some e, w)
        | Inr w1 \<Rightarrow>
            if os_path_expanduser E p0 \<in> set (locked (fs w1))
               \<or> os_path_isdir (fs w1) (os_path_expanduser E p0)
            then (Some IOError, w1)
            else
              (None, w1\<lparr>fs := (fs w1)\<lparr>files := (files (fs w1))(os_path_expanduser E p0 \<mapsto>
                \<lparr>fmode = S_IRUSR OR S_IWUSR,
                 fdata = json_dumps E (rts_dump E (backend w1)) True 2 @ newline\<rparr>)\<rparr>,
              trace := trace w1 @
                [Fs_open (os_path_expanduser E p0),
                 Fs_fchmod (os_path_expanduser E p0) (S_IRUSR OR S_IWUSR),
                 Fs_write (os_path_expanduser E p0) (json_dumps E (rts_dump E (backend w1)) True 2),
                 Fs_write (os_path_expanduser E p0) newline,
                 Log_info (''Configuration saved to '' @ os_path_expanduser E p0)]\<rparr>))"
  by (simp add: ui_command_saveconfig_def assert_root_def open_w_def Let_def do_fchmod_def
      do_write_def os_fchmod_def f_write_def emit_def log_info_def regular_file_update
      split: option.splits sum.splits)

lemma save_unfold:
  "as_root w \<Longrightarrow> backup_existing (os_path_expanduser E p0) (os_path_expanduser E p0 @ ''.backup'') w = Inr w1 \<Longrightarrow>
   os_path_expanduser E p0 \<notin> set (locked (fs w1)) \<Longrightarrow>
   \<not> os_path_isdir (fs w1) (os_path_expanduser E p0) \<Longrightarrow>
   ui_command_saveconfig E p0 w =
     (None, w1\<lparr>fs := (fs w1)\<lparr>files := (files (fs w1))(os_path_expanduser E p0 \<mapsto>
                \<lparr>fmode = S_IRUSR OR S_IWUSR,
                 fdata = json_dumps E (rts_dump E (backend w1)) True 2 @ newline\<rparr>)\<rparr>,
              trace := trace w1 @
                [Fs_open (os_path_expanduser E p0),
                 Fs_fchmod (os_path_expanduser E p0) (S_IRUSR OR S_IWUSR),
                 Fs_write (os_path_expanduser E p0) (json_dumps E (rts_dump E (backend w1)) True 2),
                 Fs_write (os_path_expanduser E p0) newline,
                 Log_info (''Configuration saved to '' @ os_path_expanduser E p0)]\<rparr>)"
  by (simp add: save_cases)

lemma fold_children:
  "fold (\<lambda>fabric_module v. v\<lparr>children := children v @ [UIFabricModule fabric_module]\<rparr>) xs v
     = v\<lparr>children := children v @ map UIFabricModule xs\<rparr>"
  by (induction xs arbitrary: v) simp_all

lemma refresh_eq:
  "refresh E w =
     w\<lparr>children := UIBackstores # map UIFabricModule (rts_fabric_modules E (backend w)),
       trace := trace w @ [Refresh]\<rparr>"
  by (simp add: refresh_def emit_def fold_children Let_def)

lemma fold_indent_print:
  "fold (\<lambda>x. indent_print (f x) steps) xs w
     = w\<lparr>trace := trace w @ map (\<lambda>x. Display (f x) (indent_step * steps)) xs\<rparr>"
  by (induction xs arbitrary: w) (simp_all add: indent_print_def emit_def)

lemma show_session_eq:
  "show_session action s w = w\<lparr>trace := trace w @ session_events (as_root w) action s\<rparr>"
  by (simp add: show_session_def session_events_def detail_events_def acl_marker_def
      fold_indent_print indent_print_def emit_def Let_def indent_step_def base_steps_def)

lemma sessions_loop_eq:
  "sessions_loop action sid ss (found, w) =
     (found \<or> filter (sid_matches sid) ss \<noteq> [],
      w\<lparr>trace := trace w @ concat (map (session_events (as_root w) action)
                                     (filter (sid_matches sid) ss))\<rparr>)"
  by (induction ss arbitrary: found w) (simp_all add: show_session_eq)

lemma locked_backup:
  "backup_existing p bk w = Inr w1 \<Longrightarrow>
   locked (fs w1) = locked (fs w) \<and> as_root w1 = as_root w \<and> backend w1 = backend w
     \<and> children w1 = children w"
  by (auto dest!: backup_result simp: shutil_move_locked)

lemma save_success:
  assumes "fst (ui_command_saveconfig E p0 w) = None"
  shows "\<exists>w1. backup_existing (os_path_expanduser E p0) (os_path_expanduser E p0 @ ''.backup'') w = Inr w1
     \<and> as_root w \<and> os_path_expanduser E p0 \<notin> set (locked (fs w1))
     \<and> ui_command_saveconfig E p0 w =
     (None, w1\<lparr>fs := (fs w1)\<lparr>files := (files (fs w1))(os_path_expanduser E p0 \<mapsto>
                \<lparr>fmode = S_IRUSR OR S_IWUSR,
                 fdata = json_dumps E (rts_dump E (backend w)) True 2 @ newline\<rparr>)\<rparr>,
              trace := trace w1 @
                [Fs_open (os_path_expanduser E p0),
                 Fs_fchmod (os_path_expanduser E p0) (S_IRUSR OR S_IWUSR),
                 Fs_write (os_path_expanduser E p0) (json_dumps E (rts_dump E (backend w)) True 2),
                 Fs_write (os_path_expanduser E p0) newline,
                 Log_info (''Configuration saved to '' @ os_path_expanduser E p0)]\<rparr>)"
proof (cases "backup_existing (os_path_expanduser E p0) (os_path_expanduser E p0 @ ''.backup'') w")
  case (Inl e)
  with assms show ?thesis
    by (simp add: save_cases split: if_splits)
next
  case (Inr w1)
  from locked_backup [OF Inr] have "backend w1 = backend w" by simp
  with assms Inr show ?thesis
    by (simp add: save_cases split: if_splits)
qed

lemma save_success_inv:
  assumes "fst (ui_command_saveconfig E p0 w) = None"
  shows "as_root w \<and> os_path_expanduser E p0 \<notin> set (locked (fs w))"
proof -
  from save_success [OF assms] obtain w1 where
    "backup_existing (os_path_expanduser E p0) (os_path_expanduser E p0 @ ''.backup'') w = Inr w1"
    "as_root w" "os_path_expanduser E p0 \<notin> set (locked (fs w1))"
    by blast
  with locked_backup [of "os_path_expanduser E p0" _ w w1] show ?thesis
    by simp
qed

lemma restore_missing:
  "as_root w \<Longrightarrow> files (fs w) (os_path_expanduser E p0) = None \<Longrightarrow>
   ui_command_restoreconfig E p0 ce w =
     (None, w\<lparr>trace := trace w @
        [Log_info (''Restore file '' @ os_path_expanduser E p0 @ '' not found'')]\<rparr>)"
  by (simp add: ui_command_restoreconfig_def assert_root_def os_path_isfile_def
      log_info_def emit_def)

lemma restore_unparsed:
  "as_root w \<Longrightarrow> files (fs w) (os_path_expanduser E p0) = Some f \<Longrightarrow>
   json_loads E (fdata f) = None \<Longrightarrow>
   ui_command_restoreconfig E p0 ce w =
     (None, w\<lparr>trace := trace w @
        [Log_error (''Error parsing savefile: '' @ os_path_expanduser E p0)]\<rparr>)"
  by (simp add: ui_command_restoreconfig_def assert_root_def os_path_isfile_def
      open_r_read_def log_error_def emit_def)

lemma restore_applied:
  "as_root w \<Longrightarrow> files (fs w) (os_path_expanduser E p0) = Some f \<Longrightarrow>
   json_loads E (fdata f) = Some config \<Longrightarrow>
   rts_restore E config ce (backend w) = (b1, Inr errors) \<Longrightarrow>
   ui_command_restoreconfig E p0 ce w =
     (None, w\<lparr>backend := b1,
              children := UIBackstores # map UIFabricModule (rts_fabric_modules E b1),
              trace := trace w @
                [Rts_restore config ce,
                 if errors \<noteq> 0
                 then Log_error (''Configuration restored, '' @ str_int errors
                                   @ '' recoverable errors'')
                 else Log_info (''Configuration restored from '' @ os_path_expanduser E p0),
                 Refresh]\<rparr>)"
  by (simp add: ui_command_restoreconfig_def assert_root_def os_path_isfile_def
      open_r_read_def log_error_def log_info_def emit_def refresh_eq)

lemma clear_done:
  "as_root w \<Longrightarrow> ui_eval_param E confirm0 False = Inr confirm \<Longrightarrow>
   rts_clear_existing E confirm (backend w) = (b1, None) \<Longrightarrow>
   ui_command_clearconfig E confirm0 w =
     (None, w\<lparr>backend := b1,
              children := UIBackstores # map UIFabricModule (rts_fabric_modules E b1),
              trace := trace w @
                [Rts_clear_existing confirm, Log_info ''All configuration cleared'',
                 Refresh]\<rparr>)"
  by (simp add: ui_command_clearconfig_def assert_root_def log_info_def emit_def refresh_eq)

lemma sessions_valid:
  assumes "action \<in> set action_list"
    and "case sid of None \<Rightarrow> True | Some t \<Rightarrow> py_int t \<noteq> None"
  shows "ui_command_sessions E action sid w =
     (if filter (sid_matches sid) (rts_sessions E (backend w)) = [] then
        (case sid of
           None \<Rightarrow> (None, w\<lparr>trace := trace w @ [Display ''(no open sessions)'' 0]\<rparr>)
         | Some t \<Rightarrow>
             (Some (ExecutionError (''no session found with sid '' @ str_int (the (py_int t)))), w))
      else (None, w\<lparr>trace := trace w @ concat (map (session_events (as_root w) action)
                       (filter (sid_matches sid) (rts_sessions E (backend w))))\<rparr>))"
  using assms
  by (auto simp: ui_command_sessions_def sessions_loop_eq indent_print_def emit_def
      base_steps_def split: option.splits)

lemma filter_unique:
  "distinct (map f xs) \<Longrightarrow> x \<in> set xs \<Longrightarrow> filter (\<lambda>y. f y = f x) xs = [x]"
proof (induction xs)
  case Nil
  then show ?case by simp
next
  case (Cons a xs)
  show ?case
  proof (cases "a = x")
    case True
    with Cons.prems have "f x \<notin> f ` set xs" by simp
    then have "\<forall>y\<in>set xs. f y \<noteq> f x" by (metis imageI)
    then have "filter (\<lambda>y. f y = f x) xs = []" by (simp add: filter_empty_conv)
    with True show ?thesis by simp
  next
    case False
    with Cons.prems have "x \<in> set xs" "f a \<noteq> f x" by auto
    with Cons show ?thesis by simp
  qed
qed

lemma base_margin_events:
  "filter at_base_margin (session_events root action s) = [Display (summary_line s) 0]"
  by (auto simp: session_events_def detail_events_def filter_empty_conv)

lemma new_events_append [simp]: "trace w' = trace w @ evs \<Longrightarrow> new_events w w' = evs"
  by (simp add: new_events_def)

lemma new_events_same [simp]: "new_events w w = []"
  by (simp add: new_events_def)

lemma backup_events:
  "backup_existing p bk w = Inr w1 \<Longrightarrow>
   \<exists>evs. trace w1 = trace w @ evs \<and> Refresh \<notin> set evs \<and> (\<forall>e\<in>set evs. \<not> is_write e)"
  by (auto dest!: backup_result)

lemma save_quiet:
  "\<exists>evs. trace (snd (ui_command_saveconfig E p0 w)) = trace w @ evs \<and> Refresh \<notin> set evs"
proof (cases "backup_existing (os_path_expanduser E p0) (os_path_expanduser E p0 @ ''.backup'') w")
  case (Inl e)
  then show ?thesis
    by (simp add: save_cases)
next
  case (Inr w1)
  from backup_events [OF Inr] obtain evs where
    "trace w1 = trace w @ evs" "Refresh \<notin> set evs" by blast
  with Inr show ?thesis
    by (simp add: save_cases)
qed

lemma save_children:
  "children (snd (ui_command_saveconfig E p0 w)) = children w"
proof (cases "backup_existing (os_path_expanduser E p0) (os_path_expanduser E p0 @ ''.backup'') w")
  case (Inl e)
  then show ?thesis
    by (simp add: save_cases)
next
  case (Inr w1)
  with locked_backup [OF Inr] show ?thesis
    by (simp add: save_cases)
qed

lemma session_events_quiet: "Refresh \<notin> set (session_events root action s)"
  by (auto simp: session_events_def detail_events_def)

lemma sessions_quiet:
  "\<exists>evs. trace (snd (ui_command_sessions E action sid w)) = trace w @ evs \<and> Refresh \<notin> set evs"
  by (auto simp: ui_command_sessions_def sessions_loop_eq indent_print_def emit_def
      session_events_quiet split: option.splits)

lemma sessions_children:
  "children (snd (ui_command_sessions E action sid w)) = children w"
  by (auto simp: ui_command_sessions_def sessions_loop_eq indent_print_def emit_def
      split: option.splits)

lemma restore_not_root:
  "\<not> as_root w \<Longrightarrow> ui_command_restoreconfig E p0 ce w = (Some AuthorizationError, w)"
  by (simp add: ui_command_restoreconfig_def assert_root_def)

lemma mode_owner_rw: "S_IRUSR OR S_IWUSR = 384"
  by (simp add: S_IRUSR_def S_IWUSR_def)

lemma save_success_file:
  assumes "fst (ui_command_saveconfig E p0 w) = None"
  shows "files (fs (snd (ui_command_saveconfig E p0 w))) (os_path_expanduser E p0) =
           Some \<lparr>fmode = S_IRUSR OR S_IWUSR,
                 fdata = json_dumps E (rts_dump E (backend w)) True 2 @ newline\<rparr>"
  using save_success [OF assms] by auto

lemma save_success_events:
  assumes "fst (ui_command_saveconfig E p0 w) = None"
  shows "\<exists>pre. new_events w (snd (ui_command_saveconfig E p0 w)) =
           pre @ [Fs_open (os_path_expanduser E p0),
                 Fs_fchmod (os_path_expanduser E p0) (S_IRUSR OR S_IWUSR),
                 Fs_write (os_path_expanduser E p0) (json_dumps E (rts_dump E (backend w)) True 2),
                 Fs_write (os_path_expanduser E p0) newline,
                 Log_info (''Configuration saved to '' @ os_path_expanduser E p0)]
           \<and> (\<forall>e\<in>set pre. \<not> is_write e)"
proof -
  from save_success [OF assms] obtain w1 where
    w1: "backup_existing (os_path_expanduser E p0) (os_path_expanduser E p0 @ ''.backup'') w = Inr w1"
    and r: "trace (snd (ui_command_saveconfig E p0 w)) = trace w1 @
                [Fs_open (os_path_expanduser E p0),
                 Fs_fchmod (os_path_expanduser E p0) (S_IRUSR OR S_IWUSR),
                 Fs_write (os_path_expanduser E p0) (json_dumps E (rts_dump E (backend w)) True 2),
                 Fs_write (os_path_expanduser E p0) newline,
                 Log_info (''Configuration saved to '' @ os_path_expanduser E p0)]"
    by auto
  from backup_events [OF w1] obtain pre where
    "trace w1 = trace w @ pre" "\<forall>e\<in>set pre. \<not> is_write e" by blast
  with r show ?thesis by (simp add: new_events_def)
qed

lemma save_success_rest:
  assumes "fst (ui_command_saveconfig E p0 w) = None"
  shows "backend (snd (ui_command_saveconfig E p0 w)) = backend w
    \<and> as_root (snd (ui_command_saveconfig E p0 w))"
proof -
  from save_success [OF assms] obtain w1 where
    w1: "backup_existing (os_path_expanduser E p0) (os_path_expanduser E p0 @ ''.backup'') w = Inr w1"
    and r: "backend (snd (ui_command_saveconfig E p0 w)) = backend w1"
       "as_root (snd (ui_command_saveconfig E p0 w)) = as_root w1"
    by auto
  with locked_backup [OF w1] save_success_inv [OF assms] show ?thesis by simp
qed




text \<open>
  A restore after a save reads the text that the save wrote: what \<open>restore\<close>
  receives is what \<open>json.loads\<close> makes of it.
\<close>

lemma restore_reads_saved:
  assumes "fst (ui_command_saveconfig E savefile w) = None"
    and "json_loads E (json_dumps E (rts_dump E (backend w)) True 2 @ newline) = Some config"
    and "rts_restore E config flag other = (restored, Inr errors)"
  shows "fst (ui_command_restoreconfig E savefile flag
                ((snd (ui_command_saveconfig E savefile w))\<lparr>backend := other\<rparr>)) = None
         \<and> backend (snd (ui_command_restoreconfig E savefile flag
                ((snd (ui_command_saveconfig E savefile w))\<lparr>backend := other\<rparr>))) = restored
         \<and> filter is_restore
              (new_events (snd (ui_command_saveconfig E savefile w))
                 (snd (ui_command_restoreconfig E savefile flag
                    ((snd (ui_command_saveconfig E savefile w))\<lparr>backend := other\<rparr>))))
             = [Rts_restore config flag]"
proof -
  let ?saved = "snd (ui_command_saveconfig E savefile w)"
  let ?v = "?saved\<lparr>backend := other\<rparr>"
  let ?doc = "\<lparr>fmode = S_IRUSR OR S_IWUSR,
               fdata = json_dumps E (rts_dump E (backend w)) True 2 @ newline\<rparr>"
  have r: "as_root ?v"
    using save_success_rest [OF assms(1)] by simp
  have f: "files (fs ?v) (os_path_expanduser E savefile) = Some ?doc"
    using save_success_file [OF assms(1)] by simp
  have l: "json_loads E (fdata ?doc) = Some config"
    using assms(2) by simp
  have a: "rts_restore E config flag (backend ?v) = (restored, Inr errors)"
    using assms(3) by simp
  note restore_applied [OF r f l a]
  then show ?thesis
    by (simp add: new_events_def)
qed

text \<open>The equations that evaluate the commands on the small instance.\<close>

lemmas demo_simps =
  demo_world_def demo_fs_def demo_env_def demo_saved_def default_save_file_def
  py_int_def strip_def is_space_def parse_digits_def is_digit_def digit_val_def
  str_int_def str_nat.simps digit_char_def newline_def

lemmas command_simps =
  ui_command_saveconfig_def ui_command_restoreconfig_def assert_root_def backup_existing_def
  shutil_move_def open_w_def open_r_read_def os_path_isfile_def do_fchmod_def do_write_def
  os_fchmod_def f_write_def log_info_def log_error_def emit_def S_IRUSR_def S_IWUSR_def
  new_events_def Let_def os_rename_def copy2_def copytree_def os_unlink_def rmtree_def
  copy_tree_def os_path_isdir_def os_path_exists_def os_path_join_def os_path_basename_def
  rstrip_sep_def destinsrc_def within_def rebase_def

lemmas session_simps =
  demo_session_def sid_matches_def same_but_flag_def summary_line_def detail_events_def
  mapped_lun_line_def connection_line_def acl_marker_def tab_def action_list_def

lemmas strict_simps =
  strict_env_def strict_world_def small_loads_def json_ws_def json_integer_def json_natural_def
  ui_eval_param_def ui_command_clearconfig_def refresh_def


subsection \<open>Restoring\<close>

text \<open>
  C7. Restoring from a path that, after the expansion of the home directory, does not
  name an existing regular file is a soft no-op: the command logs the "not found" line
  and returns normally. The world it leaves differs from the one it started in by that
  one log line only, so the backend and the children of the root are as they were,
  \<open>restore\<close> was not called and \<open>refresh\<close> did not run.
\<close>

theorem restoreconfig_missing_file:
  assumes "as_root w"
    and "\<not> os_path_isfile (fs w) (os_path_expanduser E savefile)"
  shows "ui_command_restoreconfig E savefile clear_existing w =
           (None, w\<lparr>trace := trace w @
              [Log_info (''Restore file '' @ os_path_expanduser E savefile @ '' not found'')]\<rparr>)"
  using assms by (simp add: restore_missing os_path_isfile_def)

theorem restoreconfig_missing_file_witness:
  "as_root (demo_world True [] 3)
   \<and> \<not> os_path_isfile (fs (demo_world True [] 3))
         (os_path_expanduser (demo_env []) ''~/missing.json'')
   \<and> ui_command_restoreconfig (demo_env []) ''~/missing.json'' True (demo_world True [] 3) =
       (None, (demo_world True [] 3)\<lparr>trace :=
          [Log_info ''Restore file /root/missing.json not found'']\<rparr>)"
proof -
  have r: "as_root (demo_world True [] 3)"
    by (simp add: demo_world_def)
  have m: "\<not> os_path_isfile (fs (demo_world True [] 3))
             (os_path_expanduser (demo_env []) ''~/missing.json'')"
    by (simp add: demo_world_def demo_fs_def demo_env_def os_path_isfile_def)
  show ?thesis
    using r m restoreconfig_missing_file [OF r m, of True]
    by (simp add: demo_world_def demo_env_def)
qed

text \<open>
  C2, as amended. When \<open>json.loads\<close> rejects the contents of the file with
  \<open>ValueError\<close>, the command logs the parse error and returns. The world it
  leaves differs from the one it started in by that one log line only: \<open>restore\<close>
  was not called, the backend is untouched and \<open>refresh\<close> did not run.
\<close>

theorem restoreconfig_parse_error:
  assumes "as_root w"
    and "files (fs w) (os_path_expanduser E savefile) = Some f"
    and "json_loads E (fdata f) = None"
  shows "ui_command_restoreconfig E savefile clear_existing w =
           (None, w\<lparr>trace := trace w @
              [Log_error (''Error parsing savefile: '' @ os_path_expanduser E savefile)]\<rparr>)"
  using assms by (rule restore_unparsed)

theorem restoreconfig_parse_error_witness:
  "as_root (demo_world True [(''/etc/target/saveconfig.json'', \<lparr>fmode = 384, fdata = ''{oops''\<rparr>)] 3)
   \<and> files (fs (demo_world True [(''/etc/target/saveconfig.json'', \<lparr>fmode = 384, fdata = ''{oops''\<rparr>)] 3))
         (os_path_expanduser (demo_env []) default_save_file) = Some \<lparr>fmode = 384, fdata = ''{oops''\<rparr>
   \<and> json_loads (demo_env []) (fdata \<lparr>fmode = 384, fdata = ''{oops''\<rparr>) = None
   \<and> ui_command_restoreconfig (demo_env []) default_save_file True
        (demo_world True [(''/etc/target/saveconfig.json'', \<lparr>fmode = 384, fdata = ''{oops''\<rparr>)] 3) =
       (None, (demo_world True [(''/etc/target/saveconfig.json'', \<lparr>fmode = 384, fdata = ''{oops''\<rparr>)] 3)\<lparr>trace :=
          [Log_error ''Error parsing savefile: /etc/target/saveconfig.json'']\<rparr>)"
proof -
  let ?w = "demo_world True [(''/etc/target/saveconfig.json'', \<lparr>fmode = 384, fdata = ''{oops''\<rparr>)] 3"
  have r: "as_root ?w"
    by (simp add: demo_world_def)
  have m: "files (fs ?w) (os_path_expanduser (demo_env []) default_save_file)
             = Some \<lparr>fmode = 384, fdata = ''{oops''\<rparr>"
    by (simp add: demo_world_def demo_fs_def demo_env_def default_save_file_def)
  have p: "json_loads (demo_env []) (fdata \<lparr>fmode = 384, fdata = ''{oops''\<rparr>) = None"
    by (simp add: demo_env_def py_int_def strip_def is_space_def parse_digits_def is_digit_def)
  show ?thesis
    using r m p restoreconfig_parse_error [OF r m p, of True]
    by (simp add: demo_world_def demo_env_def default_save_file_def)
qed

text \<open>
  The syntax is all that the command checks. A file that holds the JSON array
  \<open>[]\<close> is not a Snapshot document, a map, and yet it parses: \<open>restore\<close> is
  called with it, and the command ends with what \<open>restore\<close> raises, not with the
  parse error.
\<close>

theorem restoreconfig_non_snapshot_counterexample:
  "json_loads strict_env ''[]'' = Some Empty_array
   \<and> \<not> is_snapshot Empty_array
   \<and> ui_command_restoreconfig strict_env default_save_file True
        (strict_world (demo_fs (demo_saved ''[]'')))
       = (Some (OtherException ''AttributeError''),
          (strict_world (demo_fs (demo_saved ''[]'')))\<lparr>trace := [Rts_restore Empty_array True]\<rparr>)"
  by (simp add: strict_simps command_simps demo_simps)

subsection \<open>Refreshing the tree\<close>

text \<open>
  C4. \<open>refresh\<close> runs as the last effect of every restore in which the backend
  applied the snapshot and returned its count of recoverable errors, zero or not, and
  of every clear that the backend carried out; the children of the root are then one
  backstores node and one node for each fabric module of the new backend state.
  \<open>saveconfig\<close> and \<open>sessions\<close> never run \<open>refresh\<close> and leave the
  children alone, whatever their arguments. A restore that finds no file or cannot
  parse it does not run \<open>refresh\<close> either.
\<close>

theorem refresh_discipline:
  "(as_root w \<and> files (fs w) (os_path_expanduser E savefile) = Some f
      \<and> json_loads E (fdata f) = Some config
      \<and> rts_restore E config clear_existing (backend w) = (restored, Inr errors)
    \<longrightarrow> new_events w (snd (ui_command_restoreconfig E savefile clear_existing w))
          = [Rts_restore config clear_existing,
             if errors \<noteq> 0
             then Log_error (''Configuration restored, '' @ str_int errors @ '' recoverable errors'')
             else Log_info (''Configuration restored from '' @ os_path_expanduser E savefile),
             Refresh]
        \<and> children (snd (ui_command_restoreconfig E savefile clear_existing w))
            = UIBackstores # map UIFabricModule (rts_fabric_modules E restored))
   \<and> (as_root w \<and> ui_eval_param E flag False = Inr confirm
      \<and> rts_clear_existing E confirm (backend w) = (cleared, None)
    \<longrightarrow> new_events w (snd (ui_command_clearconfig E flag w))
          = [Rts_clear_existing confirm, Log_info ''All configuration cleared'', Refresh]
        \<and> children (snd (ui_command_clearconfig E flag w))
            = UIBackstores # map UIFabricModule (rts_fabric_modules E cleared))
   \<and> Refresh \<notin> set (new_events w (snd (ui_command_saveconfig E savefile w)))
   \<and> children (snd (ui_command_saveconfig E savefile w)) = children w
   \<and> Refresh \<notin> set (new_events w (snd (ui_command_sessions E action sid w)))
   \<and> children (snd (ui_command_sessions E action sid w)) = children w
   \<and> (\<not> os_path_isfile (fs w) (os_path_expanduser E savefile)
        \<or> (\<exists>g. files (fs w) (os_path_expanduser E savefile) = Some g \<and> json_loads E (fdata g) = None)
    \<longrightarrow> Refresh \<notin> set (new_events w (snd (ui_command_restoreconfig E savefile clear_existing w)))
        \<and> children (snd (ui_command_restoreconfig E savefile clear_existing w)) = children w)"
proof (intro conjI impI)
  assume h: "as_root w \<and> files (fs w) (os_path_expanduser E savefile) = Some f
      \<and> json_loads E (fdata f) = Some config
      \<and> rts_restore E config clear_existing (backend w) = (restored, Inr errors)"
  then have r: "ui_command_restoreconfig E savefile clear_existing w =
     (None, w\<lparr>backend := restored,
              children := UIBackstores # map UIFabricModule (rts_fabric_modules E restored),
              trace := trace w @
                [Rts_restore config clear_existing,
                 if errors \<noteq> 0
                 then Log_error (''Configuration restored, '' @ str_int errors
                                   @ '' recoverable errors'')
                 else Log_info (''Configuration restored from '' @ os_path_expanduser E savefile),
                 Refresh]\<rparr>)"
    by (simp add: restore_applied)
  show "new_events w (snd (ui_command_restoreconfig E savefile clear_existing w))
          = [Rts_restore config clear_existing,
             if errors \<noteq> 0
             then Log_error (''Configuration restored, '' @ str_int errors @ '' recoverable errors'')
             else Log_info (''Configuration restored from '' @ os_path_expanduser E savefile),
             Refresh]"
    by (simp add: r new_events_def)
  show "children (snd (ui_command_restoreconfig E savefile clear_existing w))
            = UIBackstores # map UIFabricModule (rts_fabric_modules E restored)"
    by (simp add: r)
next
  assume h: "as_root w \<and> ui_eval_param E flag False = Inr confirm
      \<and> rts_clear_existing E confirm (backend w) = (cleared, None)"
  then have c: "ui_command_clearconfig E flag w =
     (None, w\<lparr>backend := cleared,
              children := UIBackstores # map UIFabricModule (rts_fabric_modules E cleared),
              trace := trace w @
                [Rts_clear_existing confirm, Log_info ''All configuration cleared'',
                 Refresh]\<rparr>)"
    by (simp add: clear_done)
  show "new_events w (snd (ui_command_clearconfig E flag w))
          = [Rts_clear_existing confirm, Log_info ''All configuration cleared'', Refresh]"
    by (simp add: c new_events_def)
  show "children (snd (ui_command_clearconfig E flag w))
            = UIBackstores # map UIFabricModule (rts_fabric_modules E cleared)"
    by (simp add: c)
next
  from save_quiet [of E savefile w]
  show "Refresh \<notin> set (new_events w (snd (ui_command_saveconfig E savefile w)))"
    by (auto simp: new_events_def)
next
  show "children (snd (ui_command_saveconfig E savefile w)) = children w"
    by (rule save_children)
next
  from sessions_quiet [of E action sid w]
  show "Refresh \<notin> set (new_events w (snd (ui_command_sessions E action sid w)))"
    by (auto simp: new_events_def)
next
  show "children (snd (ui_command_sessions E action sid w)) = children w"
    by (rule sessions_children)
next
  assume h: "\<not> os_path_isfile (fs w) (os_path_expanduser E savefile)
        \<or> (\<exists>g. files (fs w) (os_path_expanduser E savefile) = Some g \<and> json_loads E (fdata g) = None)"
  then show "Refresh \<notin> set (new_events w (snd (ui_command_restoreconfig E savefile clear_existing w)))"
    by (cases "as_root w")
      (auto simp: restore_not_root restore_missing restore_unparsed os_path_isfile_def new_events_def)
  from h show "children (snd (ui_command_restoreconfig E savefile clear_existing w)) = children w"
    by (cases "as_root w")
      (auto simp: restore_not_root restore_missing restore_unparsed os_path_isfile_def)
qed

theorem refresh_discipline_witness:
  "as_root (demo_world True (demo_saved (''-2'' @ newline)) 3)
   \<and> files (fs (demo_world True (demo_saved (''-2'' @ newline)) 3))
         (os_path_expanduser (demo_env []) default_save_file)
       = Some \<lparr>fmode = 384, fdata = ''-2'' @ newline\<rparr>
   \<and> json_loads (demo_env []) (fdata \<lparr>fmode = 384, fdata = ''-2'' @ newline\<rparr>) = Some (- 2)
   \<and> rts_restore (demo_env []) (- 2) True (backend (demo_world True (demo_saved (''-2'' @ newline)) 3))
       = (0, Inr 1)
   \<and> new_events (demo_world True (demo_saved (''-2'' @ newline)) 3)
        (snd (ui_command_restoreconfig (demo_env []) default_save_file True
               (demo_world True (demo_saved (''-2'' @ newline)) 3)))
       = [Rts_restore (- 2) True, Log_error ''Configuration restored, 1 recoverable errors'',
          Refresh]
   \<and> ui_eval_param (demo_env []) (Some ''true'') False = Inr True
   \<and> rts_clear_existing (demo_env []) True
        (backend (demo_world True (demo_saved (''-2'' @ newline)) 3)) = (0, None)
   \<and> new_events (demo_world True (demo_saved (''-2'' @ newline)) 3)
        (snd (ui_command_clearconfig (demo_env []) (Some ''true'')
               (demo_world True (demo_saved (''-2'' @ newline)) 3)))
       = [Rts_clear_existing True, Log_info ''All configuration cleared'', Refresh]
   \<and> \<not> os_path_isfile (fs (demo_world True [] 3)) (os_path_expanduser (demo_env []) default_save_file)
   \<and> Refresh \<notin> set (new_events (demo_world True [] 3)
        (snd (ui_command_restoreconfig (demo_env []) default_save_file True (demo_world True [] 3))))"
proof -
  let ?w = "demo_world True (demo_saved (''-2'' @ newline)) 3"
  let ?E = "demo_env []"
  have a: "as_root ?w"
    by (simp add: demo_simps)
  have b: "files (fs ?w) (os_path_expanduser ?E default_save_file)
             = Some \<lparr>fmode = 384, fdata = ''-2'' @ newline\<rparr>"
    by (simp add: demo_simps)
  have c: "json_loads ?E (fdata \<lparr>fmode = 384, fdata = ''-2'' @ newline\<rparr>) = Some (- 2)"
    by (simp add: demo_simps)
  have d: "rts_restore ?E (- 2) True (backend ?w) = (0, Inr 1)"
    by (simp add: demo_simps)
  have e: "ui_eval_param ?E (Some ''true'') False = Inr True"
    by (simp add: ui_eval_param_def demo_simps)
  have f: "rts_clear_existing ?E True (backend ?w) = (0, None)"
    by (simp add: demo_simps)
  have g: "\<not> os_path_isfile (fs (demo_world True [] 3)) (os_path_expanduser ?E default_save_file)"
    by (simp add: os_path_isfile_def demo_simps)
  have s: "str_int 1 = ''1''"
    by (simp add: demo_simps)
  show ?thesis
    using a b c d e f g s
      refresh_discipline [where w = ?w and E = ?E and savefile = default_save_file
        and f = "\<lparr>fmode = 384, fdata = ''-2'' @ newline\<rparr>" and config = "- 2"
        and clear_existing = True and restored = 0 and errors = 1 and flag = "Some ''true''"
        and confirm = True and cleared = 0]
      refresh_discipline [where w = "demo_world True [] 3" and E = ?E
        and savefile = default_save_file and clear_existing = True]
    by simp
qed

subsection \<open>Clearing\<close>

text \<open>
  C10, as amended. The command has no gate of its own on the \<open>confirm\<close>
  parameter: whatever it is, once it has been read as a boolean (an absent parameter
  as \<open>False\<close>) it is handed to the backend's \<open>clear_existing\<close> and to nothing
  else. When that call returns, the command logs "All configuration cleared" and runs
  \<open>refresh\<close>; when it raises, the exception ends the command with neither.
\<close>

theorem clearconfig_forwards_flag:
  assumes "as_root w"
    and "ui_eval_param E flag False = Inr confirm"
  shows "(rts_clear_existing E confirm (backend w) = (cleared, None)
           \<longrightarrow> ui_command_clearconfig E flag w =
                 (None, w\<lparr>backend := cleared,
                    children := UIBackstores # map UIFabricModule (rts_fabric_modules E cleared),
                    trace := trace w @
                      [Rts_clear_existing confirm, Log_info ''All configuration cleared'',
                       Refresh]\<rparr>))
         \<and> (rts_clear_existing E confirm (backend w) = (left, Some e)
           \<longrightarrow> ui_command_clearconfig E flag w =
                 (Some e, w\<lparr>backend := left, trace := trace w @ [Rts_clear_existing confirm]\<rparr>))
         \<and> ui_eval_param E None False = Inr False"
proof (intro conjI impI)
  assume "rts_clear_existing E confirm (backend w) = (cleared, None)"
  with assms show "ui_command_clearconfig E flag w =
                 (None, w\<lparr>backend := cleared,
                    children := UIBackstores # map UIFabricModule (rts_fabric_modules E cleared),
                    trace := trace w @
                      [Rts_clear_existing confirm, Log_info ''All configuration cleared'',
                       Refresh]\<rparr>)"
    by (simp add: clear_done)
next
  assume "rts_clear_existing E confirm (backend w) = (left, Some e)"
  with assms show "ui_command_clearconfig E flag w =
                 (Some e, w\<lparr>backend := left, trace := trace w @ [Rts_clear_existing confirm]\<rparr>)"
    by (simp add: ui_command_clearconfig_def assert_root_def emit_def)
next
  show "ui_eval_param E None False = Inr False"
    by (simp add: ui_eval_param_def)
qed

theorem clearconfig_forwards_flag_witness:
  "as_root (strict_world (demo_fs []))
   \<and> ui_eval_param strict_env (Some ''true'') False = Inr True
   \<and> rts_clear_existing strict_env True (backend (strict_world (demo_fs []))) = ((), None)
   \<and> ui_command_clearconfig strict_env (Some ''true'') (strict_world (demo_fs [])) =
       (None, (strict_world (demo_fs []))\<lparr>children := [UIBackstores],
          trace := [Rts_clear_existing True, Log_info ''All configuration cleared'', Refresh]\<rparr>)
   \<and> ui_eval_param strict_env (Some ''false'') False = Inr False
   \<and> rts_clear_existing strict_env False (backend (strict_world (demo_fs [])))
       = ((), Some (OtherException ''RTSLibError''))
   \<and> ui_command_clearconfig strict_env (Some ''false'') (strict_world (demo_fs [])) =
       (Some (OtherException ''RTSLibError''),
        (strict_world (demo_fs []))\<lparr>trace := [Rts_clear_existing False]\<rparr>)"
proof -
  let ?w = "strict_world (demo_fs [])"
  have a: "as_root ?w"
    by (simp add: strict_world_def)
  have t: "ui_eval_param strict_env (Some ''true'') False = Inr True"
    by (simp add: ui_eval_param_def strict_env_def)
  have f: "ui_eval_param strict_env (Some ''false'') False = Inr False"
    by (simp add: ui_eval_param_def strict_env_def)
  have c: "rts_clear_existing strict_env True (backend ?w) = ((), None)"
    by (simp add: strict_env_def)
  have r: "rts_clear_existing strict_env False (backend ?w)
             = ((), Some (OtherException ''RTSLibError''))"
    by (simp add: strict_env_def)
  have m: "rts_fabric_modules strict_env () = []" "trace ?w = []" "backend ?w = ()"
    by (simp_all add: strict_env_def strict_world_def)
  from clearconfig_forwards_flag [OF a t, of "()" "()" "OtherException ''RTSLibError''"] c
  have performed: "ui_command_clearconfig strict_env (Some ''true'') ?w =
       (None, ?w\<lparr>children := [UIBackstores],
          trace := [Rts_clear_existing True, Log_info ''All configuration cleared'', Refresh]\<rparr>)"
    by (simp add: m)
  from clearconfig_forwards_flag [OF a f, of "()" "()" "OtherException ''RTSLibError''"] r
  have refused: "ui_command_clearconfig strict_env (Some ''false'') ?w =
       (Some (OtherException ''RTSLibError''), ?w\<lparr>trace := [Rts_clear_existing False]\<rparr>)"
    by (simp add: m)
  from a t c performed f r refused show ?thesis
    by blast
qed

text \<open>
  With a backend that refuses an unconfirmed clear, the command without the
  parameter neither reports nor refreshes.
\<close>

theorem clearconfig_unconfirmed_counterexample:
  "ui_command_clearconfig strict_env None (strict_world (demo_fs [])) =
     (Some (OtherException ''RTSLibError''),
      (strict_world (demo_fs []))\<lparr>trace := [Rts_clear_existing False]\<rparr>)"
  by (simp add: strict_simps assert_root_def emit_def)

subsection \<open>Saving\<close>

text \<open>
  C5. After every save that returns normally, the mode of the configuration file is
  \<open>S_IRUSR | S_IWUSR\<close>, octal 600: read and write for the owner and nothing else.
  The mode is set on the open file before the first write: up to \<open>fchmod\<close> the
  command has written nothing, and a write never changes the mode of a file.
\<close>

theorem saveconfig_owner_only:
  assumes "fst (ui_command_saveconfig E savefile w) = None"
  shows "map_option fmode (files (fs (snd (ui_command_saveconfig E savefile w)))
                              (os_path_expanduser E savefile)) = Some (S_IRUSR OR S_IWUSR)
         \<and> S_IRUSR OR S_IWUSR = 384
         \<and> (\<exists>pre doc. new_events w (snd (ui_command_saveconfig E savefile w)) =
               pre @ [Fs_open (os_path_expanduser E savefile),
                      Fs_fchmod (os_path_expanduser E savefile) (S_IRUSR OR S_IWUSR),
                      Fs_write (os_path_expanduser E savefile) doc,
                      Fs_write (os_path_expanduser E savefile) newline,
                      Log_info (''Configuration saved to '' @ os_path_expanduser E savefile)]
               \<and> list_all (\<lambda>e. \<not> is_write e) pre)
         \<and> (\<forall>fsys q s. map_option fmode (files (f_write fsys q s) (os_path_expanduser E savefile))
                         = map_option fmode (files fsys (os_path_expanduser E savefile)))"
proof (intro conjI)
  show "map_option fmode (files (fs (snd (ui_command_saveconfig E savefile w)))
                              (os_path_expanduser E savefile)) = Some (S_IRUSR OR S_IWUSR)"
    by (simp add: save_success_file [OF assms])
  show "S_IRUSR OR S_IWUSR = 384"
    by (rule mode_owner_rw)
  from save_success_events [OF assms]
  show "\<exists>pre doc. new_events w (snd (ui_command_saveconfig E savefile w)) =
               pre @ [Fs_open (os_path_expanduser E savefile),
                      Fs_fchmod (os_path_expanduser E savefile) (S_IRUSR OR S_IWUSR),
                      Fs_write (os_path_expanduser E savefile) doc,
                      Fs_write (os_path_expanduser E savefile) newline,
                      Log_info (''Configuration saved to '' @ os_path_expanduser E savefile)]
               \<and> list_all (\<lambda>e. \<not> is_write e) pre"
    by (auto simp: list_all_iff)
  show "\<forall>fsys q s. map_option fmode (files (f_write fsys q s) (os_path_expanduser E savefile))
                         = map_option fmode (files fsys (os_path_expanduser E savefile))"
    by (simp add: f_write_def option.map_comp comp_def)
qed

theorem saveconfig_owner_only_witness:
  "fst (ui_command_saveconfig (demo_env []) ''~/save.json'' (demo_world True [] 3)) = None
   \<and> map_option fmode (files (fs (snd (ui_command_saveconfig (demo_env []) ''~/save.json''
                                          (demo_world True [] 3)))) ''/root/save.json'') = Some 384
   \<and> new_events (demo_world True [] 3)
        (snd (ui_command_saveconfig (demo_env []) ''~/save.json'' (demo_world True [] 3))) =
       [Fs_open ''/root/save.json'', Fs_fchmod ''/root/save.json'' 384,
        Fs_write ''/root/save.json'' ''3'', Fs_write ''/root/save.json'' newline,
        Log_info ''Configuration saved to /root/save.json'']"
proof -
  have h: "fst (ui_command_saveconfig (demo_env []) ''~/save.json'' (demo_world True [] 3)) = None"
    by (simp add: command_simps demo_simps)
  have e: "os_path_expanduser (demo_env []) ''~/save.json'' = ''/root/save.json''"
    by (simp add: demo_simps)
  have n: "new_events (demo_world True [] 3)
        (snd (ui_command_saveconfig (demo_env []) ''~/save.json'' (demo_world True [] 3))) =
       [Fs_open ''/root/save.json'', Fs_fchmod ''/root/save.json'' 384,
        Fs_write ''/root/save.json'' ''3'', Fs_write ''/root/save.json'' newline,
        Log_info ''Configuration saved to /root/save.json'']"
    by (simp add: command_simps demo_simps)
  show ?thesis
    using h n saveconfig_owner_only [OF h]
    by (auto simp: e)
qed

text \<open>
  C9. Every save that returns normally leaves at the expanded path a file that holds
  exactly the serialized snapshot of the backend, \<open>json.dumps\<close> called with
  \<open>sort_keys=True\<close> and \<open>indent=2\<close>, followed by one newline character, whatever
  the file held before. The command writes the file in two steps, the document and
  then the newline, and the text depends on nothing but the snapshot.
\<close>

theorem saveconfig_file_contents:
  assumes "fst (ui_command_saveconfig E savefile w) = None"
  shows "files (fs (snd (ui_command_saveconfig E savefile w))) (os_path_expanduser E savefile) =
           Some \<lparr>fmode = S_IRUSR OR S_IWUSR,
                 fdata = json_dumps E (rts_dump E (backend w)) True 2 @ [CHR 0x0A]\<rparr>
         \<and> filter is_write (new_events w (snd (ui_command_saveconfig E savefile w))) =
             [Fs_write (os_path_expanduser E savefile) (json_dumps E (rts_dump E (backend w)) True 2),
              Fs_write (os_path_expanduser E savefile) [CHR 0x0A]]
         \<and> backend (snd (ui_command_saveconfig E savefile w)) = backend w"
proof (intro conjI)
  show "files (fs (snd (ui_command_saveconfig E savefile w))) (os_path_expanduser E savefile) =
           Some \<lparr>fmode = S_IRUSR OR S_IWUSR,
                 fdata = json_dumps E (rts_dump E (backend w)) True 2 @ [CHR 0x0A]\<rparr>"
    using save_success_file [OF assms] by (simp add: newline_def)
  from save_success_events [OF assms]
  show "filter is_write (new_events w (snd (ui_command_saveconfig E savefile w))) =
             [Fs_write (os_path_expanduser E savefile) (json_dumps E (rts_dump E (backend w)) True 2),
              Fs_write (os_path_expanduser E savefile) [CHR 0x0A]]"
    by (auto simp: newline_def filter_empty_conv)
  show "backend (snd (ui_command_saveconfig E savefile w)) = backend w"
    using save_success_rest [OF assms] by simp
qed

theorem saveconfig_file_contents_witness:
  "fst (ui_command_saveconfig (demo_env []) default_save_file
          (demo_world True (demo_saved ''old'') 12)) = None
   \<and> files (fs (snd (ui_command_saveconfig (demo_env []) default_save_file
                        (demo_world True (demo_saved ''old'') 12))))
        ''/etc/target/saveconfig.json'' = Some \<lparr>fmode = 384, fdata = ''12'' @ [CHR 0x0A]\<rparr>"
proof -
  have h: "fst (ui_command_saveconfig (demo_env []) default_save_file
                  (demo_world True (demo_saved ''old'') 12)) = None"
    by (simp add: command_simps demo_simps)
  have e: "os_path_expanduser (demo_env []) default_save_file = ''/etc/target/saveconfig.json''"
    by (simp add: demo_simps)
  have d: "json_dumps (demo_env []) (rts_dump (demo_env [])
             (backend (demo_world True (demo_saved ''old'') 12))) True 2 = ''12''"
    by (simp add: demo_simps)
  show ?thesis
    using h saveconfig_file_contents [OF h]
    by (simp add: e d mode_owner_rw)
qed




subsection \<open>Sessions\<close>

lemma same_but_flag_events:
  assumes "same_but_flag s t"
  shows "session_events False action t = session_events False action s"
proof -
  define flag where "flag = authenticate_target (parent_nodeacl t)"
  with assms have "t = s\<lparr>parent_nodeacl := (parent_nodeacl s)\<lparr>authenticate_target := flag\<rparr>\<rparr>"
    by (simp add: same_but_flag_def)
  then show ?thesis
    by (simp add: session_events_def detail_events_def summary_line_def)
qed

lemma same_but_flag_matches:
  assumes "same_but_flag s t"
  shows "sid_matches sid t = sid_matches sid s"
proof -
  define flag where "flag = authenticate_target (parent_nodeacl t)"
  with assms have "t = s\<lparr>parent_nodeacl := (parent_nodeacl s)\<lparr>authenticate_target := flag\<rparr>\<rparr>"
    by (simp add: same_but_flag_def)
  then show ?thesis
    by (simp add: sid_matches_def split: option.splits)
qed

lemma session_events_details:
  "session_events root ''details'' =
     (\<lambda>s. Display (summary_line s) 0 # detail_events (if root then acl_marker else node_wwn) s)"
  by (rule ext) (simp add: session_events_def)

lemma same_but_flag_output:
  "list_all2 same_but_flag ss ts \<Longrightarrow>
   concat (map (session_events False action) (filter (sid_matches sid) ts))
     = concat (map (session_events False action) (filter (sid_matches sid) ss))
   \<and> (filter (sid_matches sid) ts = [] \<longleftrightarrow> filter (sid_matches sid) ss = [])"
  by (induction rule: list_all2_induct)
    (simp_all add: same_but_flag_events same_but_flag_matches)

lemma sessions_unprivileged_same:
  assumes "\<not> as_root w"
    and "list_all2 same_but_flag (rts_sessions E (backend w)) (rts_sessions E' (backend w))"
  shows "ui_command_sessions E' action sid w = ui_command_sessions E action sid w"
  using assms(1)
  by (auto simp: ui_command_sessions_def sessions_loop_eq same_but_flag_output [OF assms(2)]
      split: option.splits)

text \<open>
  C3. In \<open>details\<close> mode without elevated privilege, the line of the access-control
  entry of every listed session is its \<open>node_wwn\<close> and nothing more, and the whole
  outcome of the command is the same for any two session lists that differ only in
  the authentication flags of their entries. With elevated privilege the line is the
  \<open>node_wwn\<close> followed by \<open>(authenticated)\<close> or \<open>(NOT AUTHENTICATED)\<close>,
  according to the flag.
\<close>

theorem sessions_details_privilege_gate:
  "((case sid of None \<Rightarrow> True | Some t \<Rightarrow> py_int t \<noteq> None)
      \<and> filter (sid_matches sid) (rts_sessions E (backend w)) \<noteq> []
    \<longrightarrow> ui_command_sessions E ''details'' sid w =
          (None, w\<lparr>trace := trace w @
             concat (map (\<lambda>s. Display (summary_line s) 0
                            # detail_events (if as_root w then acl_marker else node_wwn) s)
                       (filter (sid_matches sid) (rts_sessions E (backend w))))\<rparr>))
   \<and> (\<not> as_root w
        \<and> list_all2 same_but_flag (rts_sessions E (backend w)) (rts_sessions E' (backend w))
    \<longrightarrow> ui_command_sessions E' action sid w = ui_command_sessions E action sid w)
   \<and> acl_marker acl = node_wwn acl @ (if authenticate_target acl then '' (authenticated)''
                                        else '' (NOT AUTHENTICATED)'')"
proof (intro conjI impI)
  assume h: "(case sid of None \<Rightarrow> True | Some t \<Rightarrow> py_int t \<noteq> None)
      \<and> filter (sid_matches sid) (rts_sessions E (backend w)) \<noteq> []"
  have d: "''details'' \<in> set action_list"
    by (simp add: action_list_def)
  from h sessions_valid [OF d, of sid E w]
  show "ui_command_sessions E ''details'' sid w =
          (None, w\<lparr>trace := trace w @
             concat (map (\<lambda>s. Display (summary_line s) 0
                            # detail_events (if as_root w then acl_marker else node_wwn) s)
                       (filter (sid_matches sid) (rts_sessions E (backend w))))\<rparr>)"
    by (simp add: session_events_details)
next
  assume "\<not> as_root w
        \<and> list_all2 same_but_flag (rts_sessions E (backend w)) (rts_sessions E' (backend w))"
  then show "ui_command_sessions E' action sid w = ui_command_sessions E action sid w"
    by (simp add: sessions_unprivileged_same)
next
  show "acl_marker acl = node_wwn acl @ (if authenticate_target acl then '' (authenticated)''
                                        else '' (NOT AUTHENTICATED)'')"
    by (simp add: acl_marker_def)
qed

theorem sessions_details_privilege_gate_witness:
  "\<not> as_root (demo_world False [] 3)
   \<and> list_all2 same_but_flag
        (rts_sessions (demo_env [demo_session 1 True]) (backend (demo_world False [] 3)))
        (rts_sessions (demo_env [demo_session 1 False]) (backend (demo_world False [] 3)))
   \<and> filter (sid_matches None)
        (rts_sessions (demo_env [demo_session 1 True]) (backend (demo_world False [] 3))) \<noteq> []
   \<and> ui_command_sessions (demo_env [demo_session 1 False]) ''details'' None (demo_world False [] 3)
       = ui_command_sessions (demo_env [demo_session 1 True]) ''details'' None (demo_world False [] 3)
   \<and> ui_command_sessions (demo_env [demo_session 1 True]) ''details'' None (demo_world False [] 3)
       = (None, (demo_world False [] 3)\<lparr>trace :=
           [Display (''alias: host'' @ tab @ ''sid: 1  type: Normal  state: LOGGED_IN'') 0,
            Display ''iqn.2003-01.org.example:client'' 4,
            Display ''0 /dev/sdb (rw)'' 4,
            Display ''address: 10.0.0.7 (TCP)  cid: 0  state: LOGGED_IN'' 4]\<rparr>)
   \<and> filter (sid_matches None)
        (rts_sessions (demo_env [demo_session 1 False]) (backend (demo_world True [] 3))) \<noteq> []
   \<and> ui_command_sessions (demo_env [demo_session 1 False]) ''details'' None (demo_world True [] 3)
       = (None, (demo_world True [] 3)\<lparr>trace :=
           [Display (''alias: host'' @ tab @ ''sid: 1  type: Normal  state: LOGGED_IN'') 0,
            Display ''iqn.2003-01.org.example:client (NOT AUTHENTICATED)'' 4,
            Display ''0 /dev/sdb (rw)'' 4,
            Display ''address: 10.0.0.7 (TCP)  cid: 0  state: LOGGED_IN'' 4]\<rparr>)"
proof -
  let ?u = "demo_world False [] 3"
  let ?r = "demo_world True [] 3"
  let ?A = "demo_env [demo_session 1 True]"
  let ?B = "demo_env [demo_session 1 False]"
  have n: "\<not> as_root ?u"
    by (simp add: demo_simps)
  have l: "list_all2 same_but_flag (rts_sessions ?A (backend ?u)) (rts_sessions ?B (backend ?u))"
    by (simp add: demo_simps session_simps)
  have m: "filter (sid_matches None) (rts_sessions ?A (backend ?u)) \<noteq> []"
    by (simp add: demo_simps session_simps)
  have k: "filter (sid_matches None) (rts_sessions ?B (backend ?r)) \<noteq> []"
    by (simp add: demo_simps session_simps)
  note unprivileged = sessions_details_privilege_gate
    [where w = ?u and E = ?A and E' = ?B and sid = None and action = "''details''"]
  note privileged = sessions_details_privilege_gate [where w = ?r and E = ?B and sid = None]
  from unprivileged n l
  have same: "ui_command_sessions ?B ''details'' None ?u = ui_command_sessions ?A ''details'' None ?u"
    by blast
  from unprivileged m
  have "ui_command_sessions ?A ''details'' None ?u =
          (None, ?u\<lparr>trace := trace ?u @
             concat (map (\<lambda>s. Display (summary_line s) 0
                            # detail_events (if as_root ?u then acl_marker else node_wwn) s)
                       (filter (sid_matches None) (rts_sessions ?A (backend ?u))))\<rparr>)"
    by simp
  then have shown: "ui_command_sessions ?A ''details'' None ?u
       = (None, ?u\<lparr>trace :=
           [Display (''alias: host'' @ tab @ ''sid: 1  type: Normal  state: LOGGED_IN'') 0,
            Display ''iqn.2003-01.org.example:client'' 4,
            Display ''0 /dev/sdb (rw)'' 4,
            Display ''address: 10.0.0.7 (TCP)  cid: 0  state: LOGGED_IN'' 4]\<rparr>)"
    by (simp add: demo_simps session_simps)
  from privileged k
  have "ui_command_sessions ?B ''details'' None ?r =
          (None, ?r\<lparr>trace := trace ?r @
             concat (map (\<lambda>s. Display (summary_line s) 0
                            # detail_events (if as_root ?r then acl_marker else node_wwn) s)
                       (filter (sid_matches None) (rts_sessions ?B (backend ?r))))\<rparr>)"
    by simp
  then have marked: "ui_command_sessions ?B ''details'' None ?r
       = (None, ?r\<lparr>trace :=
           [Display (''alias: host'' @ tab @ ''sid: 1  type: Normal  state: LOGGED_IN'') 0,
            Display ''iqn.2003-01.org.example:client (NOT AUTHENTICATED)'' 4,
            Display ''0 /dev/sdb (rw)'' 4,
            Display ''address: 10.0.0.7 (TCP)  cid: 0  state: LOGGED_IN'' 4]\<rparr>)"
    by (simp add: demo_simps session_simps)
  from n l m same shown k marked show ?thesis
    by blast
qed

text \<open>
  C8. For sessions with pairwise distinct ids and a valid action: when the filter
  names the id of a session, the command returns normally and shows the lines of
  that session and of no other, a single line at the base margin, its summary; when
  the filter names an id that no session has, the command shows nothing and raises
  "no session found with sid" followed by that id; without a filter and without
  sessions it shows the one line "(no open sessions)" and returns normally.
\<close>

theorem sessions_found_or_not:
  "(distinct (map id_session (rts_sessions E (backend w))) \<and> action \<in> set action_list
      \<and> s \<in> set (rts_sessions E (backend w)) \<and> py_int t = Some (id_session s)
    \<longrightarrow> fst (ui_command_sessions E action (Some t) w) = None
        \<and> new_events w (snd (ui_command_sessions E action (Some t) w))
            = session_events (as_root w) action s
        \<and> filter at_base_margin (new_events w (snd (ui_command_sessions E action (Some t) w)))
            = [Display (summary_line s) 0]
        \<and> (action = ''list'' \<longrightarrow>
              new_events w (snd (ui_command_sessions E action (Some t) w))
                = [Display (summary_line s) 0]))
   \<and> (action \<in> set action_list \<and> py_int t = Some n
        \<and> n \<notin> id_session ` set (rts_sessions E (backend w))
    \<longrightarrow> ui_command_sessions E action (Some t) w
          = (Some (ExecutionError (''no session found with sid '' @ str_int n)), w))
   \<and> (action \<in> set action_list \<and> rts_sessions E (backend w) = []
    \<longrightarrow> ui_command_sessions E action None w
          = (None, w\<lparr>trace := trace w @ [Display ''(no open sessions)'' 0]\<rparr>))"
proof (intro conjI impI)
  assume h: "distinct (map id_session (rts_sessions E (backend w))) \<and> action \<in> set action_list
      \<and> s \<in> set (rts_sessions E (backend w)) \<and> py_int t = Some (id_session s)"
  then have "sid_matches (Some t) = (\<lambda>y. id_session y = id_session s)"
    by (auto simp: sid_matches_def fun_eq_iff)
  with h have f: "filter (sid_matches (Some t)) (rts_sessions E (backend w)) = [s]"
    by (simp add: filter_unique)
  from h have "ui_command_sessions E action (Some t) w =
      (None, w\<lparr>trace := trace w @ session_events (as_root w) action s\<rparr>)"
    by (simp add: sessions_valid f)
  then have r: "fst (ui_command_sessions E action (Some t) w) = None"
    "new_events w (snd (ui_command_sessions E action (Some t) w))
       = session_events (as_root w) action s"
    by (simp_all add: new_events_def)
  show "fst (ui_command_sessions E action (Some t) w) = None"
    by (rule r(1))
  show "new_events w (snd (ui_command_sessions E action (Some t) w))
          = session_events (as_root w) action s"
    by (rule r(2))
  show "filter at_base_margin (new_events w (snd (ui_command_sessions E action (Some t) w)))
          = [Display (summary_line s) 0]"
    by (simp only: r(2) base_margin_events)
  assume "action = ''list''"
  with r(2) show "new_events w (snd (ui_command_sessions E action (Some t) w))
               = [Display (summary_line s) 0]"
    by (simp add: session_events_def)
next
  assume h: "action \<in> set action_list \<and> py_int t = Some n
        \<and> n \<notin> id_session ` set (rts_sessions E (backend w))"
  then have "filter (sid_matches (Some t)) (rts_sessions E (backend w)) = []"
    by (auto simp: filter_empty_conv sid_matches_def)
  with h show "ui_command_sessions E action (Some t) w
          = (Some (ExecutionError (''no session found with sid '' @ str_int n)), w)"
    by (simp add: sessions_valid)
next
  assume "action \<in> set action_list \<and> rts_sessions E (backend w) = []"
  then show "ui_command_sessions E action None w
          = (None, w\<lparr>trace := trace w @ [Display ''(no open sessions)'' 0]\<rparr>)"
    by (simp add: sessions_valid)
qed

theorem sessions_found_or_not_witness:
  "distinct (map id_session
      (rts_sessions (demo_env [demo_session 1 True, demo_session 2 False, demo_session 3 True])
         (backend (demo_world False [] 0))))
   \<and> ''list'' \<in> set action_list
   \<and> demo_session 2 False
        \<in> set (rts_sessions (demo_env [demo_session 1 True, demo_session 2 False, demo_session 3 True])
                 (backend (demo_world False [] 0)))
   \<and> py_int ''2'' = Some (id_session (demo_session 2 False))
   \<and> fst (ui_command_sessions (demo_env [demo_session 1 True, demo_session 2 False, demo_session 3 True])
            ''list'' (Some ''2'') (demo_world False [] 0)) = None
   \<and> new_events (demo_world False [] 0)
        (snd (ui_command_sessions (demo_env [demo_session 1 True, demo_session 2 False, demo_session 3 True])
                ''list'' (Some ''2'') (demo_world False [] 0)))
       = [Display (''alias: host'' @ tab @ ''sid: 2  type: Normal  state: LOGGED_IN'') 0]
   \<and> py_int ''9'' = Some 9
   \<and> 9 \<notin> id_session `
        set (rts_sessions (demo_env [demo_session 1 True, demo_session 2 False, demo_session 3 True])
               (backend (demo_world False [] 0)))
   \<and> ui_command_sessions (demo_env [demo_session 1 True, demo_session 2 False, demo_session 3 True])
        ''list'' (Some ''9'') (demo_world False [] 0)
       = (Some (ExecutionError ''no session found with sid 9''), demo_world False [] 0)
   \<and> rts_sessions (demo_env []) (backend (demo_world False [] 0)) = []
   \<and> ui_command_sessions (demo_env []) ''list'' None (demo_world False [] 0)
       = (None, (demo_world False [] 0)\<lparr>trace := [Display ''(no open sessions)'' 0]\<rparr>)"
proof -
  let ?E = "demo_env [demo_session 1 True, demo_session 2 False, demo_session 3 True]"
  let ?u = "demo_world False [] 0"
  have d: "distinct (map id_session (rts_sessions ?E (backend ?u)))"
    by (simp add: demo_simps session_simps)
  have a: "''list'' \<in> set action_list"
    by (simp add: action_list_def)
  have i: "demo_session 2 False \<in> set (rts_sessions ?E (backend ?u))"
    by (simp add: demo_simps)
  have p: "py_int ''2'' = Some (id_session (demo_session 2 False))"
    by (simp add: demo_simps session_simps)
  have q: "py_int ''9'' = Some 9"
    by (simp add: demo_simps)
  have o: "9 \<notin> id_session ` set (rts_sessions ?E (backend ?u))"
    by (simp add: demo_simps session_simps)
  have e: "rts_sessions (demo_env []) (backend ?u) = []"
    by (simp add: demo_simps)
  note found = sessions_found_or_not
    [where E = ?E and w = ?u and action = "''list''" and s = "demo_session 2 False"
       and t = "''2''"]
  note missing = sessions_found_or_not
    [where E = ?E and w = ?u and action = "''list''" and t = "''9''" and n = 9]
  note none = sessions_found_or_not [where E = "demo_env []" and w = ?u and action = "''list''"]
  from found d a i p
  have f1: "fst (ui_command_sessions ?E ''list'' (Some ''2'') ?u) = None"
    by blast
  from found d a i p
  have "new_events ?u (snd (ui_command_sessions ?E ''list'' (Some ''2'') ?u))
          = [Display (summary_line (demo_session 2 False)) 0]"
    by blast
  then have f2: "new_events ?u (snd (ui_command_sessions ?E ''list'' (Some ''2'') ?u))
       = [Display (''alias: host'' @ tab @ ''sid: 2  type: Normal  state: LOGGED_IN'') 0]"
    by (simp add: demo_simps session_simps)
  from missing a q o
  have "ui_command_sessions ?E ''list'' (Some ''9'') ?u
          = (Some (ExecutionError (''no session found with sid '' @ str_int 9)), ?u)"
    by blast
  then have f3: "ui_command_sessions ?E ''list'' (Some ''9'') ?u
       = (Some (ExecutionError ''no session found with sid 9''), ?u)"
    by (simp add: demo_simps)
  from none a e
  have "ui_command_sessions (demo_env []) ''list'' None ?u
          = (None, ?u\<lparr>trace := trace ?u @ [Display ''(no open sessions)'' 0]\<rparr>)"
    by blast
  then have f4: "ui_command_sessions (demo_env []) ''list'' None ?u
       = (None, ?u\<lparr>trace := [Display ''(no open sessions)'' 0]\<rparr>)"
    by (simp add: demo_simps)
  from d a i p f1 f2 q o f3 e f4 show ?thesis
    by blast
qed

end
